theory Spec2Isabelle
  imports Main "HOL-Library.Word"
begin

section \<open>The Borrowed Virtual Time scheduler of xen/common/sched_bvt.c\<close>

text \<open>
  A shallow embedding of the BVT scheduler. Machine integers are words: \<open>u32\<close> and
  \<open>s32\<close> are both 32-bit words (an \<open>s32\<close> is read with \<open>sint\<close> and compared with
  \<open>\<le>s\<close>, \<open><s\<close>), \<open>s_time_t\<close> is a signed 64-bit count of nanoseconds. A
  \<open>struct domain *\<close> is a reference into a store of domains; the run queue of a CPU and the
  global domain list hold such references, so that the run queue, \<open>schedule_data[cpu].curr\<close>
  and \<open>for_each_domain\<close> alias the same records as they do in C. Locks are not
  modelled: every function is one step on the state, as it is under the locks it takes.
\<close>

type_synonym u32 = "32 word"
type_synonym s32 = "32 word"
type_synonym s_time_t = "64 word"
type_synonym dom_ref = nat

subsection \<open>Timers, soft interrupts and the constants of the headers\<close>

text \<open>
  A \<open>struct ac_timer\<close>: its deadline and whether it is on the timer heap. The fields
  \<open>cpu\<close>, \<open>data\<close> and \<open>function\<close> are written once in \<open>bvt_add_task\<close> and are
  represented by which field of the scheduling record the timer is.
\<close>

record ac_timer =
  expires :: s_time_t
  active :: bool

text \<open>
  Modelled from the spec: \<open>add_ac_timer\<close> of xen/common/ac_timer.c, which is not among the
  sources. The timer subsystem offers \<open>arm(deadline, callback)\<close>: the timer becomes
  pending for the deadline stored in it.
\<close>

definition add_ac_timer :: "ac_timer \<Rightarrow> ac_timer" where
  "add_ac_timer t = t\<lparr>active := True\<rparr>"

text \<open>
  Modelled from the spec: \<open>rem_ac_timer\<close> of xen/common/ac_timer.c, which is not among the
  sources. \<open>cancel(handle)\<close> removes a pending firing; cancelling an already-fired or
  unarmed timer is a no-op, not an error.
\<close>

definition rem_ac_timer :: "ac_timer \<Rightarrow> ac_timer" where
  "rem_ac_timer t = (if active t then t\<lparr>active := False\<rparr> else t)"

text \<open>
  Modelled from the spec: \<open>mod_ac_timer\<close> of xen/common/ac_timer.c, which is not among the
  sources: the pending firing is cancelled and the timer is armed again for the new deadline.
\<close>

definition mod_ac_timer :: "ac_timer \<Rightarrow> s_time_t \<Rightarrow> ac_timer" where
  "mod_ac_timer t new_time = add_ac_timer ((rem_ac_timer t)\<lparr>expires := new_time\<rparr>)"

text \<open>
  \<open>MICROSECS\<close> and \<open>MILLISECS\<close> of xen/time.h give nanoseconds. \<open>MCU\<close> is
  \<open>(s32)MICROSECS(100)\<close>; in \<open>calc_avt\<close> it meets a \<open>u32\<close> and is converted to
  \<open>u32\<close> by the usual arithmetic conversions. \<open>ctx_allow\<close> starts as \<open>(s32)MILLISECS(5)\<close>.
\<close>

definition MCU :: u32 where
  "MCU = 100000"

definition MCU_ADVANCE :: u32 where
  "MCU_ADVANCE = 10"

definition ctx_allow_init :: s32 where
  "ctx_allow_init = 5000000"

definition EINVAL :: int where
  "EINVAL = 22"

definition SCHED_INFO_PUT :: u32 where
  "SCHED_INFO_PUT = 0"

definition SCHED_INFO_GET :: u32 where
  "SCHED_INFO_GET = 1"

subsection \<open>The data of the scheduler\<close>

text \<open>\<open>struct bvt_dom_info\<close>; \<open>int\<close> flags are 32-bit words tested against zero.\<close>

record bvt_dom_info =
  mcu_advance :: u32
  avt :: u32
  evt :: u32
  warpback :: s32
  warp :: s32
  warp_value :: s32
  warpl :: s_time_t
  warp_timer :: ac_timer
  warpu :: s_time_t
  unwarp_timer :: ac_timer

text \<open>
  The fields of \<open>struct domain\<close> that the scheduler reads. \<open>is_idle_task\<close>,
  \<open>domain_runnable\<close> and the flag bits \<open>DF_RUNNING\<close>, \<open>DF_MIGRATED\<close> are macros of
  xen/sched.h over the domain's flags; each is a field here. \<open>sched_priv\<close> is the
  domain's \<open>bvt_dom_info\<close>, reached in C through \<open>BVT_INFO(p)\<close>.
\<close>

record domain =
  domain_id :: u32
  processor :: nat
  lastschd :: s_time_t
  is_idle_task :: bool
  domain_runnable :: bool
  df_running :: bool
  df_migrated :: bool
  sched_priv :: bvt_dom_info

text \<open>
  \<open>struct bvt_cpu_info\<close>. The run queue is the list of the domains linked into it, head
  first. \<open>svt\<close> is an \<open>unsigned long\<close>, 32 bits wide on the i386 target of this file; it
  only ever holds a value copied from a \<open>u32\<close> or that value less \<open>0xe0000000\<close>.
\<close>

record bvt_cpu_info =
  runqueue :: "dom_ref list"
  svt :: u32

text \<open>The fields of \<open>schedule_data[cpu]\<close> that the scheduler uses.\<close>

record schedule_data_t =
  curr :: dom_ref
  idle :: dom_ref
  s_timer :: ac_timer

text \<open>
  The whole state: the store of domains, the global domain list walked by
  \<open>for_each_domain\<close>, the per-CPU data, the pending \<open>SCHEDULE_SOFTIRQ\<close> bit of each CPU,
  and the static \<open>ctx_allow\<close>.
\<close>

record sched_state =
  doms :: "dom_ref \<Rightarrow> domain"
  task_list :: "dom_ref list"
  cpu_info :: "nat \<Rightarrow> bvt_cpu_info"
  schedule_data :: "nat \<Rightarrow> schedule_data_t"
  softirq_pending :: "nat \<Rightarrow> bool"
  ctx_allow :: s32

text \<open>
  What stops a call: an \<open>ASSERT\<close> of the source that does not hold (assertions are
  taken as checked, a failed one is fatal), a read through a null pointer, a division by
  zero.
\<close>

datatype fault =
  Assert_prev_on_runqueue
  | Assert_runqueue_not_empty
  | Assert_evt_order
  | Assert_slice_ge_ctx_allow
  | Null_dereference
  | Divide_error

subsection \<open>Accessors and run-queue wrappers\<close>

definition BVT_INFO :: "sched_state \<Rightarrow> dom_ref \<Rightarrow> bvt_dom_info" where
  "BVT_INFO st p = sched_priv (doms st p)"

definition RUNQUEUE :: "sched_state \<Rightarrow> nat \<Rightarrow> dom_ref list" where
  "RUNQUEUE st cpu = runqueue (cpu_info st cpu)"

definition CPU_SVT :: "sched_state \<Rightarrow> nat \<Rightarrow> u32" where
  "CPU_SVT st cpu = svt (cpu_info st cpu)"

definition upd_info :: "dom_ref \<Rightarrow> (bvt_dom_info \<Rightarrow> bvt_dom_info) \<Rightarrow> sched_state \<Rightarrow> sched_state" where
  "upd_info p f st =
     st\<lparr>doms := (doms st)(p := (doms st p)\<lparr>sched_priv := f (sched_priv (doms st p))\<rparr>)\<rparr>"

definition set_runqueue :: "nat \<Rightarrow> dom_ref list \<Rightarrow> sched_state \<Rightarrow> sched_state" where
  "set_runqueue cpu q st =
     st\<lparr>cpu_info := (cpu_info st)(cpu := (cpu_info st cpu)\<lparr>runqueue := q\<rparr>)\<rparr>"

definition set_svt :: "nat \<Rightarrow> u32 \<Rightarrow> sched_state \<Rightarrow> sched_state" where
  "set_svt cpu v st =
     st\<lparr>cpu_info := (cpu_info st)(cpu := (cpu_info st cpu)\<lparr>svt := v\<rparr>)\<rparr>"

text \<open>
  Modelled from the spec: \<open>cpu_raise_softirq\<close> of xen/softirq.h, which is not among the
  sources: it requests a reschedule on the CPU, it does not perform one.
\<close>

definition cpu_raise_softirq :: "nat \<Rightarrow> sched_state \<Rightarrow> sched_state" where
  "cpu_raise_softirq cpu st = st\<lparr>softirq_pending := (softirq_pending st)(cpu := True)\<rparr>"

text \<open>
  \<open>__add_to_runqueue_head\<close>, \<open>__add_to_runqueue_tail\<close>, \<open>__del_from_runqueue\<close> and
  \<open>__task_on_runqueue\<close>. A domain is linked into the queue of its own processor, and
  \<open>run_list.next\<close> is non-null exactly while it is linked.
\<close>

definition add_to_runqueue_head :: "dom_ref \<Rightarrow> sched_state \<Rightarrow> sched_state" where
  "add_to_runqueue_head d st =
     (let cpu = processor (doms st d) in set_runqueue cpu (d # RUNQUEUE st cpu) st)"

definition add_to_runqueue_tail :: "dom_ref \<Rightarrow> sched_state \<Rightarrow> sched_state" where
  "add_to_runqueue_tail d st =
     (let cpu = processor (doms st d) in set_runqueue cpu (RUNQUEUE st cpu @ [d]) st)"

definition del_from_runqueue :: "dom_ref \<Rightarrow> sched_state \<Rightarrow> sched_state" where
  "del_from_runqueue d st =
     (let cpu = processor (doms st d) in set_runqueue cpu (remove1 d (RUNQUEUE st cpu)) st)"

definition task_on_runqueue :: "dom_ref \<Rightarrow> sched_state \<Rightarrow> bool" where
  "task_on_runqueue d st = (d \<in> set (RUNQUEUE st (processor (doms st d))))"

subsection \<open>Warp and unwarp timer functions\<close>

text \<open>
  The callbacks receive the scheduling record; here they receive the domain that owns it,
  and the value \<open>NOW()\<close> returns.
\<close>

definition warp_timer_fn :: "dom_ref \<Rightarrow> s_time_t \<Rightarrow> sched_state \<Rightarrow> sched_state" where
  "warp_timer_fn p now st =
     (let st1 = upd_info p (\<lambda>inf. inf\<lparr>warp := 0\<rparr>) st;
          st2 = (if warpu (BVT_INFO st1 p) = 0
                 then upd_info p (\<lambda>inf. inf\<lparr>warpback := 0\<rparr>) st1
                 else upd_info p (\<lambda>inf. inf\<lparr>unwarp_timer :=
                        add_ac_timer ((unwarp_timer inf)\<lparr>expires := now + warpu inf\<rparr>)\<rparr>) st1)
      in cpu_raise_softirq (processor (doms st2 p)) st2)"

definition unwarp_timer_fn :: "dom_ref \<Rightarrow> sched_state \<Rightarrow> sched_state" where
  "unwarp_timer_fn p st =
     (if warpback (BVT_INFO st p) \<noteq> 0
      then cpu_raise_softirq (processor (doms st p)) (upd_info p (\<lambda>inf. inf\<lparr>warp := 1\<rparr>) st)
      else st)"

subsection \<open>Virtual-time accounting\<close>

definition calc_avt :: "domain \<Rightarrow> s_time_t \<Rightarrow> u32" where
  "calc_avt d now =
     (let ranfor = (ucast (now - lastschd d) :: u32);
          mcus = (ranfor + MCU - 1) div MCU
      in avt (sched_priv d) + mcus)"

definition calc_evt :: "domain \<Rightarrow> u32 \<Rightarrow> u32" where
  "calc_evt d a =
     (let inf = sched_priv d
      in if warp inf \<noteq> 0 then a - warp_value inf else a)"

subsection \<open>Control interface\<close>

record bvt_adjdom_t =
  adj_mcu_adv :: u32
  adj_warpback :: u32
  adj_warpvalue :: s32
  adj_warpl :: s_time_t
  adj_warpu :: s_time_t

record sched_adjdom_cmd =
  direction :: u32
  u_bvt :: bvt_adjdom_t

text \<open>
  \<open>bvt_ctl\<close>: the command carries a direction and \<open>ctx_allow\<close>; the result is the return
  value, the state and the command as the caller sees it afterwards.
\<close>

definition bvt_ctl :: "u32 \<Rightarrow> s32 \<Rightarrow> sched_state \<Rightarrow> int \<times> sched_state \<times> s32" where
  "bvt_ctl dir params_ctx_allow st =
     (if dir = SCHED_INFO_PUT then (0, st\<lparr>ctx_allow := params_ctx_allow\<rparr>, params_ctx_allow)
      else (0, st, ctx_allow st))"

definition bvt_adjdom :: "dom_ref \<Rightarrow> sched_adjdom_cmd \<Rightarrow> sched_state
    \<Rightarrow> int \<times> sched_state \<times> sched_adjdom_cmd" where
  "bvt_adjdom p cmd st =
     (let params = u_bvt cmd in
      if direction cmd = SCHED_INFO_PUT then
        (if adj_mcu_adv params = 0 then (- EINVAL, st, cmd)
         else
           let st1 = upd_info p (\<lambda>inf. inf\<lparr>mcu_advance := adj_mcu_adv params\<rparr>) st;
               st2 = upd_info p (\<lambda>inf. inf\<lparr>warpback := adj_warpback params\<rparr>) st1;
               st3 = upd_info p (\<lambda>inf. inf\<lparr>warp := 1\<rparr>) st2;
               st4 = upd_info p (\<lambda>inf. inf\<lparr>warp_value := adj_warpvalue params\<rparr>) st3;
               st5 = upd_info p (\<lambda>inf. inf\<lparr>warpl := adj_warpl params\<rparr>) st4;
               st6 = upd_info p (\<lambda>inf. inf\<lparr>warpu := adj_warpu params\<rparr>) st5
           in (0, st6, cmd))
      else if direction cmd = SCHED_INFO_GET then
        (let inf = BVT_INFO st p
         in (0, st, cmd\<lparr>u_bvt := \<lparr>adj_mcu_adv = mcu_advance inf,
                                  adj_warpback = warpback inf,
                                  adj_warpvalue = warp_value inf,
                                  adj_warpl = warpl inf,
                                  adj_warpu = warpu inf\<rparr>\<rparr>))
      else (0, st, cmd))"

subsection \<open>Waking a domain\<close>

text \<open>
  \<open>bvt_wake\<close>. The division by the current domain's \<open>mcu_advance\<close> is evaluated before
  the test that follows it, so a zero divisor is a fault of the whole call.
\<close>

definition bvt_wake :: "dom_ref \<Rightarrow> s_time_t \<Rightarrow> sched_state \<Rightarrow> fault + sched_state" where
  "bvt_wake d now st =
     (let cpu = processor (doms st d) in
      if task_on_runqueue d st then Inr st
      else
        let st1 = add_to_runqueue_head d st;
            st2 = (if avt (BVT_INFO st1 d) < CPU_SVT st1 cpu \<or> df_migrated (doms st1 d)
                   then upd_info d (\<lambda>inf. inf\<lparr>avt := CPU_SVT st1 cpu\<rparr>) st1
                   else st1);
            st3 = upd_info d (\<lambda>inf. inf\<lparr>evt := calc_evt (doms st2 d) (avt inf)\<rparr>) st2;
            c = curr (schedule_data st3 cpu);
            curr_evt = calc_evt (doms st3 c) (calc_avt (doms st3 c) now)
        in if mcu_advance (BVT_INFO st3 c) = 0 then Inl Divide_error
           else
             let r_time = lastschd (doms st3 c)
                          + ucast ((evt (BVT_INFO st3 d) - curr_evt) div mcu_advance (BVT_INFO st3 c))
                          + scast (ctx_allow st3)
             in if is_idle_task (doms st3 c) \<or> evt (BVT_INFO st3 d) \<le> curr_evt
                then Inr (cpu_raise_softirq cpu st3)
                else if r_time <s expires (s_timer (schedule_data st3 cpu))
                then Inr (st3\<lparr>schedule_data := (schedule_data st3)
                            (cpu := (schedule_data st3 cpu)
                               \<lparr>s_timer := mod_ac_timer (s_timer (schedule_data st3 cpu)) r_time\<rparr>)\<rparr>)
                else Inr st3)"

subsection \<open>The reschedule decision\<close>

text \<open>
  \<open>bvt_do_schedule\<close> is given block by block, in the order of the source. First the
  previous domain is folded back: its virtual times are recomputed, its warp timer is
  removed, and it moves to the tail of the run queue if it is still runnable.
\<close>

definition do_schedule_fold_back :: "dom_ref \<Rightarrow> s_time_t \<Rightarrow> sched_state \<Rightarrow> sched_state" where
  "do_schedule_fold_back prev now st =
     (if \<not> is_idle_task (doms st prev) then
        let st1 = upd_info prev (\<lambda>inf. inf\<lparr>avt := calc_avt (doms st prev) now\<rparr>) st;
            st2 = upd_info prev (\<lambda>inf. inf\<lparr>evt := calc_evt (doms st1 prev) (avt inf)\<rparr>) st1;
            st3 = upd_info prev (\<lambda>inf. inf\<lparr>warp_timer := rem_ac_timer (warp_timer inf)\<rparr>) st2;
            st4 = del_from_runqueue prev st3
        in if domain_runnable (doms st4 prev) then add_to_runqueue_tail prev st4 else st4
      else st)"

text \<open>
  The locals of the scan of the run queue. \<open>next_prime_inf\<close> starts as the null pointer.
\<close>

record scan_locals =
  next_inf :: dom_ref
  next_prime_inf :: "dom_ref option"
  next_evt :: u32
  next_prime_evt :: u32
  min_avt :: u32

definition scan_step :: "sched_state \<Rightarrow> scan_locals \<Rightarrow> dom_ref \<Rightarrow> scan_locals" where
  "scan_step st l p =
     (let p_inf = BVT_INFO st p;
          l1 = (if evt p_inf < next_evt l
                then l\<lparr>next_prime_inf := Some (next_inf l), next_prime_evt := next_evt l,
                       next_inf := p, next_evt := evt p_inf\<rparr>
                else if next_prime_evt l = - 1
                then l\<lparr>next_prime_evt := evt p_inf, next_prime_inf := Some p\<rparr>
                else if evt p_inf < next_prime_evt l
                then l\<lparr>next_prime_evt := evt p_inf, next_prime_inf := Some p\<rparr>
                else l)
      in if avt p_inf < min_avt l1 then l1\<lparr>min_avt := avt p_inf\<rparr> else l1)"

text \<open>
  Before the loop \<open>next_inf\<close> is the record of the CPU's idle domain and the three
  virtual times are \<open>~0U\<close>; the loop visits the run queue from its head.
\<close>

definition scan_init :: "dom_ref \<Rightarrow> scan_locals" where
  "scan_init i =
     \<lparr>next_inf = i, next_prime_inf = None, next_evt = - 1, next_prime_evt = - 1, min_avt = - 1\<rparr>"

definition do_schedule_scan :: "sched_state \<Rightarrow> nat \<Rightarrow> scan_locals" where
  "do_schedule_scan st cpu =
     foldl (scan_step st) (scan_init (idle (schedule_data st cpu))) (RUNQUEUE st cpu)"

text \<open>
  The check for virtual time overrun: every domain of the global list that is assigned to
  this CPU is moved down, then the system virtual time.
\<close>

definition rebase_domain :: "nat \<Rightarrow> sched_state \<Rightarrow> dom_ref \<Rightarrow> sched_state" where
  "rebase_domain cpu st p =
     (if processor (doms st p) = cpu
      then upd_info p (\<lambda>inf. inf\<lparr>avt := avt inf - 0xe0000000\<rparr>)
             (upd_info p (\<lambda>inf. inf\<lparr>evt := evt inf - 0xe0000000\<rparr>) st)
      else st)"

definition do_schedule_overrun :: "nat \<Rightarrow> sched_state \<Rightarrow> sched_state" where
  "do_schedule_overrun cpu st =
     (if 0xf0000000 \<le> CPU_SVT st cpu then
        let st1 = foldl (rebase_domain cpu) st (task_list st)
        in set_svt cpu (CPU_SVT st1 cpu - 0xe0000000) st1
      else st)"

text \<open>
  The time for the next run through the scheduler. \<open>r_time\<close> is an \<open>s32\<close>: the quotient
  is a \<open>u32\<close>, the sum is taken modulo \<open>2 ^ 32\<close> and read back as signed. The two
  assertions and the division are faults when they fail.
\<close>

definition do_schedule_slice :: "sched_state \<Rightarrow> dom_ref \<Rightarrow> dom_ref \<Rightarrow> fault + s32" where
  "do_schedule_slice st nxt next_prime =
     (if is_idle_task (doms st nxt) then Inr (ctx_allow st)
      else if is_idle_task (doms st next_prime) then Inr (10 * ctx_allow st)
      else if \<not> evt (BVT_INFO st nxt) \<le> evt (BVT_INFO st next_prime) then Inl Assert_evt_order
      else if mcu_advance (BVT_INFO st nxt) = 0 then Inl Divide_error
      else
        let r_time = (evt (BVT_INFO st next_prime) - evt (BVT_INFO st nxt))
                       div mcu_advance (BVT_INFO st nxt) + ctx_allow st
        in if ctx_allow st \<le>s r_time then Inr r_time else Inl Assert_slice_ge_ctx_allow)"

definition do_schedule_done :: "dom_ref \<Rightarrow> s_time_t \<Rightarrow> sched_state \<Rightarrow> sched_state" where
  "do_schedule_done nxt now st =
     (if warp (BVT_INFO st nxt) \<noteq> 0 \<and> 0 <s warpl (BVT_INFO st nxt)
      then upd_info nxt (\<lambda>inf. inf\<lparr>warp_timer :=
             add_ac_timer ((warp_timer inf)\<lparr>expires := now + warpl inf\<rparr>)\<rparr>) st
      else st)"

record task_slice_t =
  task :: dom_ref
  time :: s32

text \<open>
  The whole function. \<open>prev\<close> is \<open>current\<close>; its scheduling record always exists
  here, so the two assertions that it is not null hold. Reading
  \<open>next_prime_inf->domain\<close> through the null pointer is a fault; a non-null record
  always has a domain, so the test \<open>next_prime == NULL\<close> that follows is never true.
\<close>

definition bvt_do_schedule :: "dom_ref \<Rightarrow> s_time_t \<Rightarrow> sched_state
    \<Rightarrow> fault + (sched_state \<times> task_slice_t)" where
  "bvt_do_schedule prev now st =
     (let cpu = processor (doms st prev) in
      if \<not> task_on_runqueue prev st then Inl Assert_prev_on_runqueue
      else
        let st1 = do_schedule_fold_back prev now st in
        if RUNQUEUE st1 cpu = [] then Inl Assert_runqueue_not_empty
        else
          let l = do_schedule_scan st1 cpu in
          case next_prime_inf l of
            None \<Rightarrow> Inl Null_dereference
          | Some next_prime \<Rightarrow>
              let nxt = next_inf l;
                  st2 = (if min_avt l \<noteq> - 1 then set_svt cpu (min_avt l) st1 else st1);
                  st3 = do_schedule_overrun cpu st2
              in (case do_schedule_slice st3 nxt next_prime of
                    Inl f \<Rightarrow> Inl f
                  | Inr r_time \<Rightarrow>
                      Inr (do_schedule_done nxt now st3, \<lparr>task = nxt, time = r_time\<rparr>)))"

subsection \<open>The scan in the words of the specification\<close>

text \<open>
  The specification asks for the record with the smallest \<open>evt\<close> and the record with the
  second-smallest \<open>evt\<close>, ties broken by queue position: the earlier position wins.
  \<open>lowest_evt\<close> is the first record of the queue whose \<open>evt\<close> is least, and
  \<open>second_lowest_evt\<close> is the first such record of the queue without the winner.
\<close>

fun lowest_evt :: "(dom_ref \<Rightarrow> u32) \<Rightarrow> dom_ref list \<Rightarrow> dom_ref option" where
  "lowest_evt e [] = None"
| "lowest_evt e (x # xs) =
     (case lowest_evt e xs of
        None \<Rightarrow> Some x
      | Some m \<Rightarrow> if e x \<le> e m then Some x else Some m)"

definition second_lowest_evt :: "(dom_ref \<Rightarrow> u32) \<Rightarrow> dom_ref list \<Rightarrow> dom_ref option" where
  "second_lowest_evt e xs =
     (case lowest_evt e xs of None \<Rightarrow> None | Some m \<Rightarrow> lowest_evt e (remove1 m xs))"

subsection \<open>Example states\<close>

text \<open>
  Concrete states on CPU 0. The idle domain is stored at reference 0, two ordinary domains
  at references 2 and 3. A scheduling record is given by \<open>mcu_advance\<close>, \<open>avt\<close>,
  \<open>evt\<close>, the value of both \<open>warp\<close> and \<open>warpback\<close>, and \<open>warp_value\<close>; the
  other fields have the values \<open>bvt_add_task\<close> gives them.
\<close>

definition ex_timer :: "bool \<Rightarrow> ac_timer" where
  "ex_timer b = \<lparr>expires = 0, active = b\<rparr>"

definition ex_info :: "u32 \<Rightarrow> u32 \<Rightarrow> u32 \<Rightarrow> s32 \<Rightarrow> s32 \<Rightarrow> bvt_dom_info" where
  "ex_info m a e w wv =
     \<lparr>mcu_advance = m, avt = a, evt = e, warpback = w, warp = w, warp_value = wv,
      warpl = 2000000000, warp_timer = ex_timer False,
      warpu = 1000000000, unwarp_timer = ex_timer False\<rparr>"

definition ex_dom :: "bool \<Rightarrow> bvt_dom_info \<Rightarrow> domain" where
  "ex_dom idl bi =
     \<lparr>domain_id = (if idl then 0x7FFFFFFF else 1), processor = 0, lastschd = 0,
      is_idle_task = idl, domain_runnable = True,
      df_running = False, df_migrated = False, sched_priv = bi\<rparr>"

definition ex_idle :: domain where
  "ex_idle = ex_dom True (ex_info 10 (- 1) (- 1) 0 0)"

definition ex_state :: "domain \<Rightarrow> domain \<Rightarrow> dom_ref list \<Rightarrow> u32 \<Rightarrow> dom_ref \<Rightarrow> s32
    \<Rightarrow> sched_state" where
  "ex_state d2 d3 rq sv cur ca =
     \<lparr>doms = (\<lambda>_. ex_idle)(2 := d2, 3 := d3), task_list = [2, 3],
      cpu_info = (\<lambda>_. \<lparr>runqueue = rq, svt = sv\<rparr>),
      schedule_data = (\<lambda>_. \<lparr>curr = cur, idle = 0,
                              s_timer = \<lparr>expires = 1000000000, active = True\<rparr>\<rparr>),
      softirq_pending = (\<lambda>_. False),
      ctx_allow = ca\<rparr>"

text \<open>
  A command for \<open>bvt_adjdom\<close>: direction, \<open>mcu_adv\<close>, \<open>warpback\<close>, \<open>warpvalue\<close>.
\<close>

definition ex_cmd :: "u32 \<Rightarrow> u32 \<Rightarrow> u32 \<Rightarrow> s32 \<Rightarrow> sched_adjdom_cmd" where
  "ex_cmd dir m wb wv =
     \<lparr>direction = dir,
      u_bvt = \<lparr>adj_mcu_adv = m, adj_warpback = wb, adj_warpvalue = wv,
               adj_warpl = 3000000000, adj_warpu = 0\<rparr>\<rparr>"

text \<open>Domain 2 warps by 100 and is current; domain 3 does not warp.\<close>

definition ex_two :: sched_state where
  "ex_two = ex_state (ex_dom False (ex_info 10 1000 900 1 100))
                     (ex_dom False (ex_info 10 50 50 0 0)) [2, 3, 0] 50 2 5000000"

text \<open>
  Two domains of equal weight that both start at virtual time 0; domain 2 has been running
  since time 0.
\<close>

definition ex_fair :: sched_state where
  "ex_fair = ex_state (ex_dom False (ex_info 10 0 0 0 0))
                      (ex_dom False (ex_info 10 0 0 0 0)) [2, 3, 0] 0 2 5000000"

definition ex_fair_result :: "sched_state \<times> task_slice_t" where
  "ex_fair_result = projr (bvt_do_schedule 2 5000000 ex_fair)"

text \<open>
  The system virtual time has reached \<open>0xf0000000\<close> and no domain warps.
\<close>

definition ex_high :: sched_state where
  "ex_high = ex_state (ex_dom False (ex_info 10 0xf0000000 0xf0000000 0 0))
                      (ex_dom False (ex_info 10 0xf0000001 0xf0000001 0 0))
                      [2, 3, 0] 0xf0000000 2 5000000"

text \<open>
  The system virtual time has reached \<open>0xf0000000\<close>; domain 2 warps by \<open>0x20000000\<close>,
  so that its \<open>evt\<close> is \<open>0xd0000000\<close>.
\<close>

definition ex_over :: sched_state where
  "ex_over = ex_state (ex_dom False (ex_info 10 0xf0000000 0xd0000000 1 0x20000000))
                      (ex_dom False (ex_info 10 0xf0000001 0xf0000001 0 0))
                      [2, 3, 0] 0xf0000000 2 5000000"

text \<open>
  Domain 2 was given \<open>warp_value = 1\<close> by \<open>bvt_adjdom\<close> and woken at virtual time 0, so
  its \<open>evt\<close> is \<open>0 - 1 = 0xFFFFFFFF\<close>; the idle domain is current.
\<close>

definition ex_tie :: sched_state where
  "ex_tie = ex_state (ex_dom False (ex_info 10 0 (- 1) 1 1))
                     (ex_dom False (ex_info 10 0 0 0 0)) [2, 0] 0 0 5000000"

text \<open>
  As \<open>ex_tie\<close>, with domain 3 woken after domain 2 and so ahead of it in the queue:
  domain 3 at \<open>evt = 0\<close>, domain 2 at \<open>evt = 0xFFFFFFFF\<close>, idle.
\<close>

definition ex_three :: sched_state where
  "ex_three = ex_state (ex_dom False (ex_info 10 0 (- 1) 1 1))
                       (ex_dom False (ex_info 10 0 0 0 0)) [3, 2, 0] 0 0 ctx_allow_init"

text \<open>Domain 2 is blocked with a stale \<open>avt\<close>; domain 3 is current.\<close>

definition ex_blocked :: sched_state where
  "ex_blocked = ex_state (ex_dom False (ex_info 10 10 10 0 0))
                         (ex_dom False (ex_info 10 50 50 0 0)) [3, 0] 50 3 5000000"

definition ex_blocked_result :: sched_state where
  "ex_blocked_result = projr (bvt_wake 2 100000 ex_blocked)"

definition ex_single_result :: "sched_state \<times> task_slice_t" where
  "ex_single_result = projr (bvt_do_schedule 3 100000 ex_blocked)"

text \<open>
  Domain 2 has \<open>mcu_advance = 1\<close>; domain 3 was given \<open>warp_value = 0x80000000\<close>, the
  least \<open>s32\<close>, and woken at virtual time 0, so its \<open>evt\<close> is \<open>0x80000000\<close>. The idle
  domain is current and \<open>ctx_allow\<close> has its initial value.
\<close>

definition ex_slice :: sched_state where
  "ex_slice = ex_state (ex_dom False (ex_info 1 0 0 1 0))
                       (ex_dom False (ex_info 10 0 0x80000000 1 0x80000000))
                       [2, 3, 0] 0 0 ctx_allow_init"

text \<open>Domain 2 is current and both of its timers are pending.\<close>

definition ex_armed :: sched_state where
  "ex_armed = ex_state
     (ex_dom False ((ex_info 10 1000 900 1 100)
                      \<lparr>warp_timer := ex_timer True, unwarp_timer := ex_timer True\<rparr>))
     (ex_dom False (ex_info 10 50 50 0 0)) [2, 3, 0] 50 2 5000000"

definition ex_armed_result :: "sched_state \<times> task_slice_t" where
  "ex_armed_result = projr (bvt_do_schedule 2 100 ex_armed)"

text \<open>
  The state after start-up: the idle domain is current and alone on the run queue, domains
  2 and 3 are as \<open>bvt_add_task\<close> leaves them at \<open>svt = 0\<close>. From there the two
  states above are reached through the interface. \<open>ex_tie_run\<close>: domain 2 is given
  \<open>warpvalue = 1\<close> and woken. \<open>ex_three_run\<close>: domain 3 is woken after that.
  \<open>ex_slice_run\<close>: domain 2 is given \<open>mcu_adv = 1\<close>,
  domain 3 is given \<open>warpvalue = 0x80000000\<close>, domain 3 and then domain 2 are woken, and
  the scheduler runs.
\<close>

definition ex_boot :: sched_state where
  "ex_boot = ex_state (ex_dom False (ex_info 10 0 0 0 0))
                      (ex_dom False (ex_info 10 0 0 0 0)) [0] 0 0 ctx_allow_init"

definition ex_tie_run :: sched_state where
  "ex_tie_run =
     projr (bvt_wake 2 0 (fst (snd (bvt_adjdom 2 (ex_cmd SCHED_INFO_PUT 10 0 1) ex_boot))))"

definition ex_three_run :: sched_state where
  "ex_three_run = projr (bvt_wake 3 0 ex_tie_run)"

definition ex_slice_run :: "fault + (sched_state \<times> task_slice_t)" where
  "ex_slice_run =
     bvt_do_schedule 0 0
       (projr (bvt_wake 2 0
          (projr (bvt_wake 3 0
             (fst (snd (bvt_adjdom 3 (ex_cmd SCHED_INFO_PUT 10 0 0x80000000)
                (fst (snd (bvt_adjdom 2 (ex_cmd SCHED_INFO_PUT 1 0 0) ex_boot))))))))))"

section \<open>Properties\<close>

lemmas acc_defs = BVT_INFO_def RUNQUEUE_def CPU_SVT_def upd_info_def set_runqueue_def set_svt_def
  cpu_raise_softirq_def add_to_runqueue_head_def add_to_runqueue_tail_def del_from_runqueue_def
  task_on_runqueue_def

lemma word32_max: "(x :: u32) \<le> - 1"
  by simp

lemma word32_lt_max: "(x :: u32) < - 1 \<longleftrightarrow> x \<noteq> - 1"
  by (simp add: word_order.not_eq_extremum)

lemma Inr_projr: "\<not> isl x \<Longrightarrow> x = Inr (projr x)"
  by (cases x) simp_all

subsection \<open>The first record with the least evt\<close>

lemma lowest_evt_None [simp]: "lowest_evt e xs = None \<longleftrightarrow> xs = []"
  by (cases xs) (auto split: option.splits)

lemma lowest_evt_mem: "lowest_evt e xs = Some m \<Longrightarrow> m \<in> set xs"
  by (induction xs arbitrary: m) (auto split: option.splits if_splits)

lemma lowest_evt_least: "lowest_evt e xs = Some m \<Longrightarrow> x \<in> set xs \<Longrightarrow> e m \<le> e x"
  by (induction xs arbitrary: m) (auto split: option.splits if_splits)

text \<open>
  What \<open>lowest_evt\<close> returns sits in the queue behind records of strictly greater \<open>evt\<close>
  only, and no record after it has a smaller \<open>evt\<close>.
\<close>

lemma lowest_evt_first:
  "lowest_evt e xs = Some m \<Longrightarrow>
   \<exists>pre post. xs = pre @ m # post \<and> (\<forall>x\<in>set pre. e m < e x) \<and> (\<forall>x\<in>set post. e m \<le> e x)"
proof (induction xs arbitrary: m)
  case Nil
  then show ?case by simp
next
  case (Cons x xs)
  show ?case
  proof (cases "lowest_evt e xs")
    case None
    with Cons.prems have "xs = []" "m = x" by auto
    then show ?thesis by (intro exI [of _ "[]"]) simp
  next
    case (Some k)
    show ?thesis
    proof (cases "e x \<le> e k")
      case True
      with Some Cons.prems have m: "m = x" by simp
      have "\<forall>y\<in>set xs. e x \<le> e y"
        using lowest_evt_least [OF Some] True by fastforce
      with m show ?thesis by (intro exI [of _ "[]"] exI [of _ xs]) simp
    next
      case False
      with Some Cons.prems have m: "m = k" by simp
      from Cons.IH [OF Some] obtain pre post where
        pp: "xs = pre @ k # post" "\<forall>y\<in>set pre. e k < e y" "\<forall>y\<in>set post. e k \<le> e y"
        by blast
      with m False show ?thesis
        by (intro exI [of _ "x # pre"] exI [of _ post]) auto
    qed
  qed
qed

lemma lowest_evt_snoc:
  "lowest_evt e (xs @ [p]) =
     (case lowest_evt e xs of
        None \<Rightarrow> Some p
      | Some m \<Rightarrow> if e p < e m then Some p else Some m)"
  by (induction xs) (auto split: option.splits)

lemma second_lowest_evt_snoc:
  assumes "p \<notin> set xs" and "lowest_evt e xs = Some n"
  shows "second_lowest_evt e (xs @ [p]) =
     (if e p < e n then Some n
      else case lowest_evt e (remove1 n xs) of
             None \<Rightarrow> Some p
           | Some r \<Rightarrow> if e p < e r then Some p else Some r)"
proof -
  have n: "n \<in> set xs" using assms(2) by (rule lowest_evt_mem)
  show ?thesis
    using assms n
    by (simp add: second_lowest_evt_def lowest_evt_snoc remove1_append)
qed

subsection \<open>The scan of the run queue\<close>

lemma scan_step_fields:
  "next_inf (scan_step st l p) = (if evt (BVT_INFO st p) < next_evt l then p else next_inf l)"
  "next_evt (scan_step st l p)
     = (if evt (BVT_INFO st p) < next_evt l then evt (BVT_INFO st p) else next_evt l)"
  "next_prime_inf (scan_step st l p)
     = (if evt (BVT_INFO st p) < next_evt l then Some (next_inf l)
        else if next_prime_evt l = - 1 \<or> evt (BVT_INFO st p) < next_prime_evt l then Some p
        else next_prime_inf l)"
  "next_prime_evt (scan_step st l p)
     = (if evt (BVT_INFO st p) < next_evt l then next_evt l
        else if next_prime_evt l = - 1 \<or> evt (BVT_INFO st p) < next_prime_evt l
        then evt (BVT_INFO st p)
        else next_prime_evt l)"
  "min_avt (scan_step st l p) = min (avt (BVT_INFO st p)) (min_avt l)"
  by (auto simp add: scan_step_def Let_def min_def)

lemma scan_first:
  assumes "evt (BVT_INFO st p) = - 1 \<longrightarrow> p = i"
  shows "next_inf (scan_step st (scan_init i) p) = p
       \<and> next_evt (scan_step st (scan_init i) p) = evt (BVT_INFO st p)
       \<and> next_prime_inf (scan_step st (scan_init i) p) = Some i
       \<and> next_prime_evt (scan_step st (scan_init i) p) = - 1"
  using assms by (auto simp: scan_step_fields scan_init_def word32_lt_max)

text \<open>
  The invariant of the loop, for a queue of distinct records in which only the idle record
  may have the \<open>evt\<close> \<open>~0U\<close>, the value the locals start with.
\<close>

lemma scan_inv:
  assumes "distinct xs" and "\<forall>p\<in>set xs. evt (BVT_INFO st p) = - 1 \<longrightarrow> p = i"
    and "xs \<noteq> []"
  shows "lowest_evt (\<lambda>p. evt (BVT_INFO st p)) xs
           = Some (next_inf (foldl (scan_step st) (scan_init i) xs))
       \<and> next_evt (foldl (scan_step st) (scan_init i) xs)
           = evt (BVT_INFO st (next_inf (foldl (scan_step st) (scan_init i) xs)))
       \<and> (length xs = 1 \<longrightarrow>
            next_prime_inf (foldl (scan_step st) (scan_init i) xs) = Some i
            \<and> next_prime_evt (foldl (scan_step st) (scan_init i) xs) = - 1)
       \<and> (2 \<le> length xs \<longrightarrow>
            (\<exists>r. next_prime_inf (foldl (scan_step st) (scan_init i) xs) = Some r
               \<and> second_lowest_evt (\<lambda>p. evt (BVT_INFO st p)) xs = Some r
               \<and> next_prime_evt (foldl (scan_step st) (scan_init i) xs) = evt (BVT_INFO st r)))"
  using assms
proof (induction xs rule: rev_induct)
  case Nil
  then show ?case by simp
next
  case (snoc p xs)
  let ?e = "\<lambda>p. evt (BVT_INFO st p)"
  let ?l = "foldl (scan_step st) (scan_init i) xs"
  have pn: "p \<notin> set xs" and dx: "distinct xs" using snoc.prems(1) by auto
  have sent: "\<forall>p\<in>set xs. ?e p = - 1 \<longrightarrow> p = i" using snoc.prems(2) by auto
  have sp: "?e p = - 1 \<longrightarrow> p = i" using snoc.prems(2) by auto
  show ?case
  proof (cases "xs = []")
    case True
    then show ?thesis using scan_first [OF sp] by simp
  next
    case False
    note IH = snoc.IH [OF dx sent False]
    from IH have low: "lowest_evt ?e xs = Some (next_inf ?l)"
      and ne: "next_evt ?l = ?e (next_inf ?l)"
      by auto
    have nin: "next_inf ?l \<in> set xs" using low by (rule lowest_evt_mem)
    show ?thesis
    proof (cases "length xs = 1")
      case True
      then have npe: "next_prime_evt ?l = - 1" using IH by simp
      from True nin have xs: "xs = [next_inf ?l]"
        by (cases xs) auto
      have rm: "remove1 (next_inf ?l) xs = []" by (subst xs) simp
      show ?thesis
        using low ne npe True rm
        by (auto simp: lowest_evt_snoc second_lowest_evt_snoc [OF pn low] scan_step_fields)
    next
      case False
      with \<open>xs \<noteq> []\<close> have len: "2 \<le> length xs"
        by (cases xs) (auto simp: Suc_le_eq)
      with IH obtain r where r: "next_prime_inf ?l = Some r"
        "second_lowest_evt ?e xs = Some r" "next_prime_evt ?l = ?e r"
        by auto
      from r(2) low have lr: "lowest_evt ?e (remove1 (next_inf ?l) xs) = Some r"
        by (simp add: second_lowest_evt_def)
      then have "r \<in> set (remove1 (next_inf ?l) xs)" by (rule lowest_evt_mem)
      then have rin: "r \<in> set xs" using set_remove1_subset [of "next_inf ?l" xs] by blast
      have pr: "?e r = - 1 \<Longrightarrow> ?e p < - 1"
      proof -
        assume "?e r = - 1"
        with sent rin have "r = i" by blast
        with rin pn have "p \<noteq> i" by blast
        with sp show ?thesis by (auto simp: word32_lt_max)
      qed
      show ?thesis
        using low ne r lr len pr
        by (auto simp: lowest_evt_snoc second_lowest_evt_snoc [OF pn low] scan_step_fields)
    qed
  qed
qed

lemma scan_min_avt:
  "min_avt (foldl (scan_step st) l xs)
     = fold min (map (\<lambda>p. avt (BVT_INFO st p)) xs) (min_avt l)"
  by (induction xs arbitrary: l) (simp_all add: scan_step_fields)

lemma scan_min_avt_Min:
  assumes "xs \<noteq> []"
  shows "min_avt (foldl (scan_step st) (scan_init i) xs)
           = Min ((\<lambda>p. avt (BVT_INFO st p)) ` set xs)"
proof -
  have "min_avt (foldl (scan_step st) (scan_init i) xs)
        = Min (set ((- 1) # map (\<lambda>p. avt (BVT_INFO st p)) xs))"
    by (simp only: scan_min_avt Min.set_eq_fold) (simp add: scan_init_def)
  also have "\<dots> = min (- 1) (Min ((\<lambda>p. avt (BVT_INFO st p)) ` set xs))"
    using assms by simp
  also have "\<dots> = Min ((\<lambda>p. avt (BVT_INFO st p)) ` set xs)"
    by (rule min_absorb2) simp
  finally show ?thesis .
qed

text \<open>
  With the idle record as the only possible record of \<open>evt\<close> \<open>~0U\<close>, the runner-up is
  an idle task exactly when the queue holds nothing but the winner and the idle record.
\<close>

lemma scan_runner_up_idle:
  assumes dq: "distinct (RUNQUEUE s cpu)"
    and sent: "\<forall>p\<in>set (RUNQUEUE s cpu). evt (BVT_INFO s p) = - 1
                 \<longrightarrow> p = idle (schedule_data s cpu)"
    and only: "\<forall>p\<in>set (RUNQUEUE s cpu). is_idle_task (doms s p)
                 \<longleftrightarrow> p = idle (schedule_data s cpu)"
    and ei: "evt (BVT_INFO s (idle (schedule_data s cpu))) = - 1"
    and ii: "is_idle_task (doms s (idle (schedule_data s cpu)))"
    and ne: "RUNQUEUE s cpu \<noteq> []"
    and np: "next_prime_inf (do_schedule_scan s cpu) = Some np"
  shows "is_idle_task (doms s np)
         \<longleftrightarrow> (\<forall>p\<in>set (RUNQUEUE s cpu). p \<noteq> next_inf (do_schedule_scan s cpu)
                \<longrightarrow> p = idle (schedule_data s cpu))"
proof -
  let ?q = "RUNQUEUE s cpu"
  let ?i = "idle (schedule_data s cpu)"
  let ?e = "\<lambda>p. evt (BVT_INFO s p)"
  let ?n = "next_inf (do_schedule_scan s cpu)"
  note inv = scan_inv [OF dq sent ne, folded do_schedule_scan_def]
  from inv have low: "lowest_evt ?e ?q = Some ?n" by simp
  then have nq: "?n \<in> set ?q" by (rule lowest_evt_mem)
  show ?thesis
  proof (cases "length ?q = 1")
    case True
    with inv np have "np = ?i" by simp
    moreover from True nq have "?q = [?n]" by (cases ?q) auto
    then have "\<forall>p\<in>set ?q. p = ?n" by (metis set_ConsD empty_iff empty_set)
    ultimately show ?thesis using ii by auto
  next
    case False
    with ne have "2 \<le> length ?q" by (cases ?q) (auto simp: Suc_le_eq)
    with inv np have sl: "second_lowest_evt ?e ?q = Some np" by auto
    with low have lr: "lowest_evt ?e (remove1 ?n ?q) = Some np"
      by (simp add: second_lowest_evt_def)
    then have m: "np \<in> set (remove1 ?n ?q)" by (rule lowest_evt_mem)
    with dq have npq: "np \<in> set ?q" "np \<noteq> ?n" by auto
    show ?thesis
    proof
      assume "is_idle_task (doms s np)"
      with only npq have "np = ?i" by blast
      with ei have enp: "?e np = - 1" by simp
      show "\<forall>p\<in>set ?q. p \<noteq> ?n \<longrightarrow> p = ?i"
      proof (intro ballI impI)
        fix p assume p: "p \<in> set ?q" "p \<noteq> ?n"
        then have "p \<in> set (remove1 ?n ?q)" by simp
        from lowest_evt_least [OF lr this] enp have "- 1 \<le> ?e p" by simp
        then have "?e p = - 1" by (rule antisym [OF word32_max])
        with sent p show "p = ?i" by blast
      qed
    next
      assume "\<forall>p\<in>set ?q. p \<noteq> ?n \<longrightarrow> p = ?i"
      with npq have "np = ?i" by blast
      with ii show "is_idle_task (doms s np)" by simp
    qed
  qed
qed

text \<open>
  Claim C4, as amended. Let the run queue of the CPU be non-empty, hold each record once,
  and hold no record of \<open>evt\<close> \<open>0xFFFFFFFF\<close> other than the CPU's idle record. Then the
  scan returns as \<open>next_inf\<close> the record with the smallest \<open>evt\<close>, the earliest one
  among equals: every record before it in the queue has a strictly greater \<open>evt\<close>, none
  after it has a smaller one. If the queue holds at least two records, \<open>next_prime_inf\<close>
  is the record that is first in this sense among the others. \<open>min_avt\<close> is the least
  \<open>avt\<close> of the queue.
\<close>

theorem scan_min_two:
  assumes "distinct (RUNQUEUE st cpu)"
    and "\<forall>p\<in>set (RUNQUEUE st cpu). evt (BVT_INFO st p) = - 1 \<longrightarrow> p = idle (schedule_data st cpu)"
    and "RUNQUEUE st cpu \<noteq> []"
  shows "lowest_evt (\<lambda>p. evt (BVT_INFO st p)) (RUNQUEUE st cpu)
           = Some (next_inf (do_schedule_scan st cpu))
       \<and> (\<exists>pre post. RUNQUEUE st cpu = pre @ next_inf (do_schedule_scan st cpu) # post
            \<and> (\<forall>x\<in>set pre. evt (BVT_INFO st (next_inf (do_schedule_scan st cpu)))
                              < evt (BVT_INFO st x))
            \<and> (\<forall>x\<in>set post. evt (BVT_INFO st (next_inf (do_schedule_scan st cpu)))
                              \<le> evt (BVT_INFO st x)))
       \<and> (2 \<le> length (RUNQUEUE st cpu) \<longrightarrow>
            (\<exists>r pre post.
                next_prime_inf (do_schedule_scan st cpu) = Some r
              \<and> second_lowest_evt (\<lambda>p. evt (BVT_INFO st p)) (RUNQUEUE st cpu) = Some r
              \<and> remove1 (next_inf (do_schedule_scan st cpu)) (RUNQUEUE st cpu) = pre @ r # post
              \<and> (\<forall>x\<in>set pre. evt (BVT_INFO st r) < evt (BVT_INFO st x))
              \<and> (\<forall>x\<in>set post. evt (BVT_INFO st r) \<le> evt (BVT_INFO st x))))
       \<and> min_avt (do_schedule_scan st cpu)
           = Min ((\<lambda>p. avt (BVT_INFO st p)) ` set (RUNQUEUE st cpu))"
proof -
  let ?e = "\<lambda>p. evt (BVT_INFO st p)"
  let ?l = "do_schedule_scan st cpu"
  note inv = scan_inv [OF assms, folded do_schedule_scan_def]
  from inv have low: "lowest_evt ?e (RUNQUEUE st cpu) = Some (next_inf ?l)" by simp
  have second: "\<exists>r pre post.
                next_prime_inf ?l = Some r
              \<and> second_lowest_evt ?e (RUNQUEUE st cpu) = Some r
              \<and> remove1 (next_inf ?l) (RUNQUEUE st cpu) = pre @ r # post
              \<and> (\<forall>x\<in>set pre. ?e r < ?e x) \<and> (\<forall>x\<in>set post. ?e r \<le> ?e x)"
    if "2 \<le> length (RUNQUEUE st cpu)"
  proof -
    from inv that obtain r where r: "next_prime_inf ?l = Some r"
      "second_lowest_evt ?e (RUNQUEUE st cpu) = Some r"
      by auto
    with low have "lowest_evt ?e (remove1 (next_inf ?l) (RUNQUEUE st cpu)) = Some r"
      by (simp add: second_lowest_evt_def)
    from lowest_evt_first [OF this] r show ?thesis by blast
  qed
  show ?thesis
    using low lowest_evt_first [OF low] second
      scan_min_avt_Min [OF assms(3), of st "idle (schedule_data st cpu)"]
    by (simp add: do_schedule_scan_def)
qed

text \<open>
  In \<open>ex_two\<close> the queue is domain 2 (\<open>evt\<close> 900), domain 3 (\<open>evt\<close> 50), idle: the
  winner is domain 3, the runner-up domain 2, the least \<open>avt\<close> 50.
\<close>

theorem scan_min_two_witness:
  "RUNQUEUE ex_two 0 = [2, 3, 0]
   \<and> idle (schedule_data ex_two 0) = 0
   \<and> evt (BVT_INFO ex_two 2) = 900
   \<and> evt (BVT_INFO ex_two 3) = 50
   \<and> lowest_evt (\<lambda>p. evt (BVT_INFO ex_two p)) (RUNQUEUE ex_two 0)
       = Some (next_inf (do_schedule_scan ex_two 0))
   \<and> second_lowest_evt (\<lambda>p. evt (BVT_INFO ex_two p)) (RUNQUEUE ex_two 0)
       = next_prime_inf (do_schedule_scan ex_two 0)
   \<and> next_inf (do_schedule_scan ex_two 0) = 3
   \<and> next_prime_inf (do_schedule_scan ex_two 0) = Some 2
   \<and> min_avt (do_schedule_scan ex_two 0) = 50"
proof -
  have h: "distinct (RUNQUEUE ex_two 0)"
    "\<forall>p\<in>set (RUNQUEUE ex_two 0). evt (BVT_INFO ex_two p) = - 1
       \<longrightarrow> p = idle (schedule_data ex_two 0)"
    "RUNQUEUE ex_two 0 \<noteq> []"
    by code_simp+
  have len: "2 \<le> length (RUNQUEUE ex_two 0)" by code_simp
  have v: "next_inf (do_schedule_scan ex_two 0) = 3"
    "next_prime_inf (do_schedule_scan ex_two 0) = Some 2"
    "min_avt (do_schedule_scan ex_two 0) = 50"
    by code_simp+
  from scan_min_two [OF h] len
  have "lowest_evt (\<lambda>p. evt (BVT_INFO ex_two p)) (RUNQUEUE ex_two 0)
          = Some (next_inf (do_schedule_scan ex_two 0))
        \<and> second_lowest_evt (\<lambda>p. evt (BVT_INFO ex_two p)) (RUNQUEUE ex_two 0)
          = next_prime_inf (do_schedule_scan ex_two 0)"
    by auto
  moreover have "RUNQUEUE ex_two 0 = [2, 3, 0]" "idle (schedule_data ex_two 0) = 0"
    "evt (BVT_INFO ex_two 2) = 900" "evt (BVT_INFO ex_two 3) = 50"
    by code_simp+
  ultimately show ?thesis using v by simp
qed

text \<open>
  Claim C4 as stated fails when a record other than the idle one has \<open>evt\<close>
  \<open>0xFFFFFFFF\<close>. In \<open>ex_tie\<close> the queue is domain 2, idle; both have that \<open>evt\<close>;
  domain 2 is the earlier one, and the scan returns the idle record as the winner. The
  same holds in \<open>ex_tie_run\<close>, the state reached through \<open>bvt_adjdom\<close> and \<open>bvt_wake\<close>.
\<close>

theorem scan_tie_counterexample:
  "RUNQUEUE ex_tie 0 = [2, 0]
   \<and> evt (BVT_INFO ex_tie 2) = evt (BVT_INFO ex_tie 0)
   \<and> lowest_evt (\<lambda>p. evt (BVT_INFO ex_tie p)) (RUNQUEUE ex_tie 0) = Some 2
   \<and> next_inf (do_schedule_scan ex_tie 0) = 0
   \<and> RUNQUEUE ex_tie_run 0 = [2, 0]
   \<and> evt (BVT_INFO ex_tie_run 2) = evt (BVT_INFO ex_tie_run 0)
   \<and> next_inf (do_schedule_scan ex_tie_run 0) = 0"
  by code_simp

subsection \<open>The time slice\<close>

lemma done_frame:
  "ctx_allow (do_schedule_done n now s) = ctx_allow s"
  "is_idle_task (doms (do_schedule_done n now s) p) = is_idle_task (doms s p)"
  "evt (BVT_INFO (do_schedule_done n now s) p) = evt (BVT_INFO s p)"
  "mcu_advance (BVT_INFO (do_schedule_done n now s) p) = mcu_advance (BVT_INFO s p)"
  "unwarp_timer (BVT_INFO (do_schedule_done n now s) p) = unwarp_timer (BVT_INFO s p)"
  by (simp_all add: do_schedule_done_def upd_info_def BVT_INFO_def)

lemma rebase_domain_doms:
  "doms (rebase_domain cpu st x) p
     = (if p = x \<and> processor (doms st x) = cpu
        then (doms st p)\<lparr>sched_priv := (sched_priv (doms st p))
               \<lparr>evt := evt (sched_priv (doms st p)) - 0xe0000000,
                avt := avt (sched_priv (doms st p)) - 0xe0000000\<rparr>\<rparr>
        else doms st p)"
  by (simp add: rebase_domain_def upd_info_def)

lemma rebase_domain_frame:
  "cpu_info (rebase_domain cpu st x) = cpu_info st"
  "task_list (rebase_domain cpu st x) = task_list st"
  "schedule_data (rebase_domain cpu st x) = schedule_data st"
  "softirq_pending (rebase_domain cpu st x) = softirq_pending st"
  "ctx_allow (rebase_domain cpu st x) = ctx_allow st"
  by (simp_all add: rebase_domain_def upd_info_def)

lemma foldl_rebase_frame:
  "cpu_info (foldl (rebase_domain cpu) st xs) = cpu_info st
   \<and> task_list (foldl (rebase_domain cpu) st xs) = task_list st
   \<and> schedule_data (foldl (rebase_domain cpu) st xs) = schedule_data st
   \<and> softirq_pending (foldl (rebase_domain cpu) st xs) = softirq_pending st
   \<and> ctx_allow (foldl (rebase_domain cpu) st xs) = ctx_allow st"
  by (induction xs arbitrary: st) (simp_all add: rebase_domain_frame)

lemma foldl_rebase_idle:
  "is_idle_task (doms (foldl (rebase_domain cpu) s xs) p) = is_idle_task (doms s p)
   \<and> unwarp_timer (sched_priv (doms (foldl (rebase_domain cpu) s xs) p))
       = unwarp_timer (sched_priv (doms s p))"
  by (induction xs arbitrary: s) (simp_all add: rebase_domain_doms)

lemma overrun_frame:
  "ctx_allow (do_schedule_overrun cpu s) = ctx_allow s"
  "is_idle_task (doms (do_schedule_overrun cpu s) p) = is_idle_task (doms s p)"
  "unwarp_timer (BVT_INFO (do_schedule_overrun cpu s) p) = unwarp_timer (BVT_INFO s p)"
  by (simp_all add: do_schedule_overrun_def Let_def set_svt_def foldl_rebase_frame
      foldl_rebase_idle BVT_INFO_def)

lemma set_svt_frame:
  "ctx_allow (set_svt cpu v s) = ctx_allow s"
  "doms (set_svt cpu v s) = doms s"
  "BVT_INFO (set_svt cpu v s) = BVT_INFO s"
  by (simp_all add: set_svt_def BVT_INFO_def fun_eq_iff)

lemma fold_back_frame:
  "ctx_allow (do_schedule_fold_back prev now s) = ctx_allow s"
  "is_idle_task (doms (do_schedule_fold_back prev now s) p) = is_idle_task (doms s p)"
  "schedule_data (do_schedule_fold_back prev now s) = schedule_data s"
  "unwarp_timer (BVT_INFO (do_schedule_fold_back prev now s) p) = unwarp_timer (BVT_INFO s p)"
  by (simp_all add: do_schedule_fold_back_def Let_def acc_defs)

lemma slice_cases:
  assumes "do_schedule_slice s n np = Inr r"
  shows "r = (if is_idle_task (doms s n) then ctx_allow s
              else if is_idle_task (doms s np) then 10 * ctx_allow s
              else (evt (BVT_INFO s np) - evt (BVT_INFO s n)) div mcu_advance (BVT_INFO s n)
                   + ctx_allow s)"
  using assms by (auto simp: do_schedule_slice_def Let_def split: if_splits)

lemma bvt_do_schedule_Inr:
  assumes "bvt_do_schedule prev now st = Inr (st', ret)"
  shows "\<exists>np r. next_prime_inf (do_schedule_scan (do_schedule_fold_back prev now st)
                     (processor (doms st prev))) = Some np
     \<and> task_on_runqueue prev st
     \<and> RUNQUEUE (do_schedule_fold_back prev now st) (processor (doms st prev)) \<noteq> []
     \<and> do_schedule_slice
          (do_schedule_overrun (processor (doms st prev))
             (if min_avt (do_schedule_scan (do_schedule_fold_back prev now st)
                   (processor (doms st prev))) \<noteq> - 1
              then set_svt (processor (doms st prev))
                     (min_avt (do_schedule_scan (do_schedule_fold_back prev now st)
                        (processor (doms st prev))))
                     (do_schedule_fold_back prev now st)
              else do_schedule_fold_back prev now st))
          (next_inf (do_schedule_scan (do_schedule_fold_back prev now st)
             (processor (doms st prev)))) np = Inr r
     \<and> st' = do_schedule_done
          (next_inf (do_schedule_scan (do_schedule_fold_back prev now st)
             (processor (doms st prev)))) now
          (do_schedule_overrun (processor (doms st prev))
             (if min_avt (do_schedule_scan (do_schedule_fold_back prev now st)
                   (processor (doms st prev))) \<noteq> - 1
              then set_svt (processor (doms st prev))
                     (min_avt (do_schedule_scan (do_schedule_fold_back prev now st)
                        (processor (doms st prev))))
                     (do_schedule_fold_back prev now st)
              else do_schedule_fold_back prev now st))
     \<and> ret = \<lparr>task = next_inf (do_schedule_scan (do_schedule_fold_back prev now st)
                   (processor (doms st prev))), time = r\<rparr>"
  using assms
  unfolding bvt_do_schedule_def Let_def
  by (simp split: if_splits option.splits sum.splits)

text \<open>
  What the three branches compute. Whenever \<open>bvt_do_schedule\<close> returns, the domain it
  returns is the winner \<open>next_inf\<close> of the scan of the folded-back queue, and with
  \<open>next_prime\<close> the scan's runner-up the slice is \<open>ctx_allow\<close> if the winner is an idle
  task, ten times \<open>ctx_allow\<close> if the runner-up is an idle task, and otherwise
  \<open>(next_prime.evt - next.evt) / next.mcu_advance + ctx_allow\<close> in 32-bit arithmetic, on
  the virtual times the records hold when the function returns. The second branch is the
  one the source comments with ``only one runnable task besides the idle task''. The code
  keeps to that comment where the queue holds each record once and the CPU's idle record
  is its only idle task and its only record of \<open>evt\<close> \<open>~0U\<close>: there the runner-up is
  idle exactly when every queue entry other than the winner is the idle record.
\<close>

lemma bvt_do_schedule_slice:
  assumes "bvt_do_schedule prev now st = Inr (st', ret)"
  shows "\<exists>next_prime.
       next_prime_inf (do_schedule_scan (do_schedule_fold_back prev now st)
                         (processor (doms st prev))) = Some next_prime
     \<and> task ret = next_inf (do_schedule_scan (do_schedule_fold_back prev now st)
                      (processor (doms st prev)))
     \<and> ctx_allow st' = ctx_allow st
     \<and> time ret
         = (if is_idle_task (doms st' (task ret)) then ctx_allow st'
            else if is_idle_task (doms st' next_prime) then 10 * ctx_allow st'
            else (evt (BVT_INFO st' next_prime) - evt (BVT_INFO st' (task ret)))
                   div mcu_advance (BVT_INFO st' (task ret)) + ctx_allow st')
     \<and> (let st1 = do_schedule_fold_back prev now st;
             cpu = processor (doms st prev);
             i = idle (schedule_data st cpu)
         in distinct (RUNQUEUE st1 cpu)
            \<and> (\<forall>p\<in>set (RUNQUEUE st1 cpu). evt (BVT_INFO st1 p) = - 1 \<longrightarrow> p = i)
            \<and> (\<forall>p\<in>set (RUNQUEUE st1 cpu). is_idle_task (doms st1 p) \<longleftrightarrow> p = i)
            \<and> evt (BVT_INFO st1 i) = - 1 \<and> is_idle_task (doms st1 i) \<longrightarrow>
            (is_idle_task (doms st' next_prime)
             \<longleftrightarrow> (\<forall>p\<in>set (RUNQUEUE st1 cpu). p \<noteq> task ret \<longrightarrow> p = i)))"
proof -
  define cpu where "cpu = processor (doms st prev)"
  define st1 where "st1 = do_schedule_fold_back prev now st"
  define l where "l = do_schedule_scan st1 cpu"
  define st3 where "st3 = do_schedule_overrun cpu
                             (if min_avt l \<noteq> - 1 then set_svt cpu (min_avt l) st1 else st1)"
  from bvt_do_schedule_Inr [OF assms] obtain np r where
    np: "next_prime_inf l = Some np" and ne: "RUNQUEUE st1 cpu \<noteq> []"
    and sl: "do_schedule_slice st3 (next_inf l) np = Inr r"
    and st': "st' = do_schedule_done (next_inf l) now st3"
    and ret: "ret = \<lparr>task = next_inf l, time = r\<rparr>"
    unfolding cpu_def st1_def l_def st3_def by blast
  have ca: "ctx_allow st' = ctx_allow st" "ctx_allow st3 = ctx_allow st"
    by (simp_all add: st' st3_def st1_def done_frame overrun_frame set_svt_frame fold_back_frame)
  have idl: "\<And>p. is_idle_task (doms st' p) = is_idle_task (doms st1 p)"
    by (simp add: st' st3_def done_frame overrun_frame set_svt_frame)
  have idl3: "\<And>p. is_idle_task (doms st3 p) = is_idle_task (doms st1 p)"
    by (simp add: st3_def overrun_frame set_svt_frame)
  have fr: "\<And>p. evt (BVT_INFO st' p) = evt (BVT_INFO st3 p)"
    "\<And>p. mcu_advance (BVT_INFO st' p) = mcu_advance (BVT_INFO st3 p)"
    by (simp_all add: st' done_frame)
  have tm: "time ret
         = (if is_idle_task (doms st' (task ret)) then ctx_allow st'
            else if is_idle_task (doms st' np) then 10 * ctx_allow st'
            else (evt (BVT_INFO st' np) - evt (BVT_INFO st' (task ret)))
                   div mcu_advance (BVT_INFO st' (task ret)) + ctx_allow st')"
    using slice_cases [OF sl] by (simp add: ret ca idl idl3 fr)
  have sd: "idle (schedule_data st1 cpu) = idle (schedule_data st cpu)"
    by (simp add: st1_def fold_back_frame)
  have eq: "distinct (RUNQUEUE st1 cpu)
            \<and> (\<forall>p\<in>set (RUNQUEUE st1 cpu). evt (BVT_INFO st1 p) = - 1
                  \<longrightarrow> p = idle (schedule_data st cpu))
            \<and> (\<forall>p\<in>set (RUNQUEUE st1 cpu). is_idle_task (doms st1 p)
                  \<longleftrightarrow> p = idle (schedule_data st cpu))
            \<and> evt (BVT_INFO st1 (idle (schedule_data st cpu))) = - 1
            \<and> is_idle_task (doms st1 (idle (schedule_data st cpu))) \<longrightarrow>
            (is_idle_task (doms st' np)
             \<longleftrightarrow> (\<forall>p\<in>set (RUNQUEUE st1 cpu). p \<noteq> task ret
                    \<longrightarrow> p = idle (schedule_data st cpu)))"
  proof (intro impI, elim conjE)
    assume h: "distinct (RUNQUEUE st1 cpu)"
      "\<forall>p\<in>set (RUNQUEUE st1 cpu). evt (BVT_INFO st1 p) = - 1 \<longrightarrow> p = idle (schedule_data st cpu)"
      "\<forall>p\<in>set (RUNQUEUE st1 cpu). is_idle_task (doms st1 p) \<longleftrightarrow> p = idle (schedule_data st cpu)"
      "evt (BVT_INFO st1 (idle (schedule_data st cpu))) = - 1"
      "is_idle_task (doms st1 (idle (schedule_data st cpu)))"
    show "is_idle_task (doms st' np)
          \<longleftrightarrow> (\<forall>p\<in>set (RUNQUEUE st1 cpu). p \<noteq> task ret \<longrightarrow> p = idle (schedule_data st cpu))"
      using scan_runner_up_idle [of st1 cpu np, unfolded sd, OF h ne np [unfolded l_def]]
      by (simp add: idl ret l_def)
  qed
  show ?thesis
    unfolding Let_def cpu_def [symmetric] st1_def [symmetric] l_def [symmetric]
    using np tm ca(1) eq by (intro exI [of _ np]) (simp add: ret)
qed

text \<open>
  The scenario of the specification, second reschedule: domains 2 and 3 with
  \<open>mcu_advance = 10\<close> start at virtual time 0 and domain 2 has run for 5 ms. Folding it
  back gives it \<open>avt = evt = 50\<close>; domain 3 is selected, domain 2 is the runner-up, and
  the slice is \<open>(50 - 0) / 10 + 5000000 = 5000005\<close> nanoseconds. In \<open>ex_blocked\<close> the
  queue holds the current domain 3 and the idle domain only, and the slice is ten times
  \<open>ctx_allow\<close>.
\<close>

lemma bvt_do_schedule_slice_example:
  "bvt_do_schedule 2 5000000 ex_fair = Inr (fst ex_fair_result, snd ex_fair_result)
   \<and> task (snd ex_fair_result) = 3
   \<and> evt (BVT_INFO (fst ex_fair_result) 2) = 50
   \<and> evt (BVT_INFO (fst ex_fair_result) 3) = 0
   \<and> time (snd ex_fair_result)
       = (evt (BVT_INFO (fst ex_fair_result) 2) - evt (BVT_INFO (fst ex_fair_result) 3))
           div mcu_advance (BVT_INFO (fst ex_fair_result) 3) + ctx_allow (fst ex_fair_result)
   \<and> time (snd ex_fair_result) = 5000005
   \<and> bvt_do_schedule 3 100000 ex_blocked = Inr (fst ex_single_result, snd ex_single_result)
   \<and> RUNQUEUE (do_schedule_fold_back 3 100000 ex_blocked) 0 = [0, 3]
   \<and> task (snd ex_single_result) = 3
   \<and> time (snd ex_single_result) = 10 * ctx_allow (fst ex_single_result)
   \<and> time (snd ex_single_result) = 50000000"
proof -
  have "\<not> isl (bvt_do_schedule 2 5000000 ex_fair)" by code_simp
  then have ev: "bvt_do_schedule 2 5000000 ex_fair = Inr (fst ex_fair_result, snd ex_fair_result)"
    by (simp add: ex_fair_result_def Inr_projr [symmetric])
  have v: "next_prime_inf (do_schedule_scan (do_schedule_fold_back 2 5000000 ex_fair)
             (processor (doms ex_fair 2))) = Some 2"
    "task (snd ex_fair_result) = 3"
    "\<not> is_idle_task (doms (fst ex_fair_result) 3)"
    "\<not> is_idle_task (doms (fst ex_fair_result) 2)"
    by code_simp+
  have w: "evt (BVT_INFO (fst ex_fair_result) 2) = 50" "evt (BVT_INFO (fst ex_fair_result) 3) = 0"
    "time (snd ex_fair_result) = 5000005"
    by code_simp+
  from bvt_do_schedule_slice [OF ev] v
  have t1: "time (snd ex_fair_result)
       = (evt (BVT_INFO (fst ex_fair_result) 2) - evt (BVT_INFO (fst ex_fair_result) 3))
           div mcu_advance (BVT_INFO (fst ex_fair_result) 3) + ctx_allow (fst ex_fair_result)"
    by auto
  have "\<not> isl (bvt_do_schedule 3 100000 ex_blocked)" by code_simp
  then have ev2: "bvt_do_schedule 3 100000 ex_blocked
                    = Inr (fst ex_single_result, snd ex_single_result)"
    by (simp add: ex_single_result_def Inr_projr [symmetric])
  have h2: "distinct (RUNQUEUE (do_schedule_fold_back 3 100000 ex_blocked)
                (processor (doms ex_blocked 3)))"
    "\<forall>p\<in>set (RUNQUEUE (do_schedule_fold_back 3 100000 ex_blocked) (processor (doms ex_blocked 3))).
       evt (BVT_INFO (do_schedule_fold_back 3 100000 ex_blocked) p) = - 1
       \<longrightarrow> p = idle (schedule_data ex_blocked (processor (doms ex_blocked 3)))"
    "\<forall>p\<in>set (RUNQUEUE (do_schedule_fold_back 3 100000 ex_blocked) (processor (doms ex_blocked 3))).
       is_idle_task (doms (do_schedule_fold_back 3 100000 ex_blocked) p)
       \<longleftrightarrow> p = idle (schedule_data ex_blocked (processor (doms ex_blocked 3)))"
    "evt (BVT_INFO (do_schedule_fold_back 3 100000 ex_blocked)
       (idle (schedule_data ex_blocked (processor (doms ex_blocked 3))))) = - 1"
    "is_idle_task (doms (do_schedule_fold_back 3 100000 ex_blocked)
       (idle (schedule_data ex_blocked (processor (doms ex_blocked 3)))))"
    by code_simp+
  have o2: "\<forall>p\<in>set (RUNQUEUE (do_schedule_fold_back 3 100000 ex_blocked)
                       (processor (doms ex_blocked 3))).
       p \<noteq> task (snd ex_single_result)
       \<longrightarrow> p = idle (schedule_data ex_blocked (processor (doms ex_blocked 3)))"
    by code_simp
  have v2: "\<not> is_idle_task (doms (fst ex_single_result) (task (snd ex_single_result)))"
    "task (snd ex_single_result) = 3"
    "RUNQUEUE (do_schedule_fold_back 3 100000 ex_blocked) 0 = [0, 3]"
    "time (snd ex_single_result) = 50000000"
    by code_simp+
  from bvt_do_schedule_slice [OF ev2] obtain np where
    tm: "time (snd ex_single_result)
         = (if is_idle_task (doms (fst ex_single_result) (task (snd ex_single_result)))
            then ctx_allow (fst ex_single_result)
            else if is_idle_task (doms (fst ex_single_result) np)
            then 10 * ctx_allow (fst ex_single_result)
            else (evt (BVT_INFO (fst ex_single_result) np)
                    - evt (BVT_INFO (fst ex_single_result) (task (snd ex_single_result))))
                   div mcu_advance (BVT_INFO (fst ex_single_result) (task (snd ex_single_result)))
                 + ctx_allow (fst ex_single_result))"
    and iff: "distinct (RUNQUEUE (do_schedule_fold_back 3 100000 ex_blocked)
                (processor (doms ex_blocked 3)))
            \<and> (\<forall>p\<in>set (RUNQUEUE (do_schedule_fold_back 3 100000 ex_blocked)
                          (processor (doms ex_blocked 3))).
                  evt (BVT_INFO (do_schedule_fold_back 3 100000 ex_blocked) p) = - 1
                  \<longrightarrow> p = idle (schedule_data ex_blocked (processor (doms ex_blocked 3))))
            \<and> (\<forall>p\<in>set (RUNQUEUE (do_schedule_fold_back 3 100000 ex_blocked)
                          (processor (doms ex_blocked 3))).
                  is_idle_task (doms (do_schedule_fold_back 3 100000 ex_blocked) p)
                  \<longleftrightarrow> p = idle (schedule_data ex_blocked (processor (doms ex_blocked 3))))
            \<and> evt (BVT_INFO (do_schedule_fold_back 3 100000 ex_blocked)
                 (idle (schedule_data ex_blocked (processor (doms ex_blocked 3))))) = - 1
            \<and> is_idle_task (doms (do_schedule_fold_back 3 100000 ex_blocked)
                 (idle (schedule_data ex_blocked (processor (doms ex_blocked 3))))) \<longrightarrow>
            (is_idle_task (doms (fst ex_single_result) np)
             \<longleftrightarrow> (\<forall>p\<in>set (RUNQUEUE (do_schedule_fold_back 3 100000 ex_blocked)
                              (processor (doms ex_blocked 3))).
                    p \<noteq> task (snd ex_single_result)
                    \<longrightarrow> p = idle (schedule_data ex_blocked (processor (doms ex_blocked 3)))))"
    unfolding Let_def by blast
  from iff h2 o2 have "is_idle_task (doms (fst ex_single_result) np)" by blast
  with tm v2(1) have t2: "time (snd ex_single_result) = 10 * ctx_allow (fst ex_single_result)"
    by simp
  show ?thesis
    using ev v(2) w t1 ev2 v2 t2 by simp
qed

text \<open>
  Claim C1 is what the source says of its three branches: the branch that grants ten
  times \<open>ctx_allow\<close> carries the comment ``We have only one runnable task besides the
  idle task'', and the last branch is for two runnable tasks. The code can break it. In
  \<open>ex_three\<close> the queue is domain 3, domain 2, idle, and the idle domain is current;
  domains 3 and 2 are both runnable and neither is idle, and domain 2 has the \<open>evt\<close>
  \<open>0xFFFFFFFF\<close> that the scan takes for ``none yet''. Domain 3 is selected, the scan
  ends with the idle record as \<open>next_prime\<close>, and the slice is ten times \<open>ctx_allow\<close>,
  50000000, where the claim gives
  \<open>(next_prime.evt - next.evt) / next.mcu_advance + ctx_allow = 434496729\<close> for the
  second runnable record. The same holds in \<open>ex_three_run\<close>, the state reached from
  start-up through \<open>bvt_adjdom\<close> and \<open>bvt_wake\<close>.
\<close>

theorem slice_single_task_branch_with_two_runnable:
  "RUNQUEUE ex_three 0 = [3, 2, 0]
   \<and> \<not> is_idle_task (doms ex_three 3)
   \<and> domain_runnable (doms ex_three 3)
   \<and> \<not> is_idle_task (doms ex_three 2)
   \<and> domain_runnable (doms ex_three 2)
   \<and> evt (BVT_INFO ex_three 2) = 0xFFFFFFFF
   \<and> evt (BVT_INFO ex_three 0) = 0xFFFFFFFF
   \<and> \<not> isl (bvt_do_schedule 0 0 ex_three)
   \<and> task (snd (projr (bvt_do_schedule 0 0 ex_three))) = 3
   \<and> next_prime_inf (do_schedule_scan ex_three 0) = Some 0
   \<and> time (snd (projr (bvt_do_schedule 0 0 ex_three))) = 10 * ctx_allow ex_three
   \<and> time (snd (projr (bvt_do_schedule 0 0 ex_three))) = 50000000
   \<and> (evt (BVT_INFO ex_three 2) - evt (BVT_INFO ex_three 3)) div mcu_advance (BVT_INFO ex_three 3)
        + ctx_allow ex_three = 434496729
   \<and> RUNQUEUE ex_three_run 0 = [3, 2, 0]
   \<and> \<not> is_idle_task (doms ex_three_run 3) \<and> domain_runnable (doms ex_three_run 3)
   \<and> \<not> is_idle_task (doms ex_three_run 2) \<and> domain_runnable (doms ex_three_run 2)
   \<and> \<not> isl (bvt_do_schedule 0 0 ex_three_run)
   \<and> task (snd (projr (bvt_do_schedule 0 0 ex_three_run))) = 3
   \<and> time (snd (projr (bvt_do_schedule 0 0 ex_three_run))) = 50000000"
  by code_simp

subsection \<open>The virtual-time overrun\<close>

lemma foldl_rebase_doms:
  "distinct xs \<Longrightarrow>
   doms (foldl (rebase_domain cpu) st xs) p
     = (if p \<in> set xs \<and> processor (doms st p) = cpu
        then (doms st p)\<lparr>sched_priv := (sched_priv (doms st p))
               \<lparr>evt := evt (sched_priv (doms st p)) - 0xe0000000,
                avt := avt (sched_priv (doms st p)) - 0xe0000000\<rparr>\<rparr>
        else doms st p)"
proof (induction xs arbitrary: st)
  case Nil
  then show ?case by simp
next
  case (Cons x xs)
  then have d: "distinct xs" and nx: "x \<notin> set xs" by auto
  show ?case
    using nx by (auto simp add: Cons.IH [OF d] rebase_domain_doms)
qed

lemma overrun_doms:
  assumes "0xf0000000 \<le> CPU_SVT st cpu" and "distinct (task_list st)"
  shows "doms (do_schedule_overrun cpu st) p
     = (if p \<in> set (task_list st) \<and> processor (doms st p) = cpu
        then (doms st p)\<lparr>sched_priv := (sched_priv (doms st p))
               \<lparr>evt := evt (sched_priv (doms st p)) - 0xe0000000,
                avt := avt (sched_priv (doms st p)) - 0xe0000000\<rparr>\<rparr>
        else doms st p)"
  using assms
  by (simp add: do_schedule_overrun_def Let_def set_svt_def foldl_rebase_doms)

lemma overrun_svt:
  assumes "0xf0000000 \<le> CPU_SVT st cpu"
  shows "CPU_SVT (do_schedule_overrun cpu st) cpu = CPU_SVT st cpu - 0xe0000000"
  using assms
  by (simp add: do_schedule_overrun_def Let_def set_svt_def CPU_SVT_def foldl_rebase_frame)

lemma unat_rebase:
  "(0xe0000000 :: u32) \<le> x \<Longrightarrow> unat (x - 0xe0000000) = unat x - 0xe0000000"
  by (simp add: unat_sub)

lemma rebase_order:
  "(0xe0000000 :: u32) \<le> x \<Longrightarrow> 0xe0000000 \<le> y \<Longrightarrow>
   (x - 0xe0000000 \<le> y - 0xe0000000) = (x \<le> y)"
  by (simp add: word_le_nat_alt unat_sub) arith

lemma rebase_order_below:
  assumes "x < (0xe0000000 :: u32)" and "y < 0xe0000000"
  shows "(x - 0xe0000000 \<le> y - 0xe0000000) = (x \<le> y)"
proof -
  have e: "\<And>z :: u32. z - 0xe0000000 = z + 0x20000000" by simp
  have u: "\<And>z :: u32. z < 0xe0000000 \<Longrightarrow> unat (z + 0x20000000) = unat z + 0x20000000"
    by (simp add: unat_add_lem [THEN iffD1] word_less_nat_alt)
  show ?thesis
    using assms by (simp add: e word_le_nat_alt u)
qed

text \<open>
  What the overrun check does. When the system virtual time of the CPU is at least
  \<open>0xf0000000\<close>, \<open>avt\<close> and \<open>evt\<close> of every domain of the domain list that is
  assigned to the CPU are decreased by \<open>0xe0000000\<close> modulo \<open>2 ^ 32\<close>, which is a
  decrease by exactly that constant for a value of at least \<open>0xe0000000\<close>; \<open>svt\<close> is
  decreased by exactly \<open>0xe0000000\<close>; and the order of the \<open>evt\<close> of two such domains
  is kept when both values are on the same side of \<open>0xe0000000\<close>.
\<close>

lemma overrun_rebase:
  assumes "0xf0000000 \<le> CPU_SVT st cpu" and "distinct (task_list st)"
  shows "(\<forall>p\<in>set (task_list st). processor (doms st p) = cpu \<longrightarrow>
            avt (BVT_INFO (do_schedule_overrun cpu st) p) = avt (BVT_INFO st p) - 0xe0000000
          \<and> evt (BVT_INFO (do_schedule_overrun cpu st) p) = evt (BVT_INFO st p) - 0xe0000000
          \<and> (0xe0000000 \<le> avt (BVT_INFO st p) \<longrightarrow>
               unat (avt (BVT_INFO (do_schedule_overrun cpu st) p))
                 = unat (avt (BVT_INFO st p)) - 0xe0000000)
          \<and> (0xe0000000 \<le> evt (BVT_INFO st p) \<longrightarrow>
               unat (evt (BVT_INFO (do_schedule_overrun cpu st) p))
                 = unat (evt (BVT_INFO st p)) - 0xe0000000))
       \<and> unat (CPU_SVT (do_schedule_overrun cpu st) cpu) = unat (CPU_SVT st cpu) - 0xe0000000
       \<and> (\<forall>p\<in>set (task_list st). \<forall>q\<in>set (task_list st).
            processor (doms st p) = cpu \<and> processor (doms st q) = cpu
            \<and> (0xe0000000 \<le> evt (BVT_INFO st p)) = (0xe0000000 \<le> evt (BVT_INFO st q))
            \<longrightarrow>
            (evt (BVT_INFO (do_schedule_overrun cpu st) p)
               \<le> evt (BVT_INFO (do_schedule_overrun cpu st) q))
            = (evt (BVT_INFO st p) \<le> evt (BVT_INFO st q)))"
proof -
  have svt: "0xe0000000 \<le> CPU_SVT st cpu"
    using assms(1) by (rule order_trans [rotated]) simp
  have ord: "(x - 0xe0000000 \<le> y - 0xe0000000) = (x \<le> y)"
    if "(0xe0000000 \<le> x) = (0xe0000000 \<le> y)" for x y :: u32
  proof (cases "0xe0000000 \<le> x")
    case True
    with that show ?thesis by (simp add: rebase_order)
  next
    case False
    with that show ?thesis by (simp add: rebase_order_below not_le)
  qed
  show ?thesis
    using svt
    by (simp add: overrun_svt [OF assms(1)] overrun_doms [OF assms] BVT_INFO_def unat_rebase ord)
qed

text \<open>
  The scenario of the specification in \<open>ex_high\<close>: \<open>svt\<close> is \<open>0xf0000000\<close>,
  domain 2 has \<open>avt = evt = 0xf0000000\<close> and domain 3 has \<open>avt = evt = 0xf0000001\<close>;
  afterwards \<open>svt\<close> is \<open>0x10000000\<close>, domain 3 is at \<open>0x10000001\<close>, and domain 2 is
  still below domain 3.
\<close>

lemma overrun_rebase_example:
  "0xf0000000 \<le> CPU_SVT ex_high 0
   \<and> distinct (task_list ex_high)
   \<and> 2 \<in> set (task_list ex_high) \<and> 3 \<in> set (task_list ex_high)
   \<and> processor (doms ex_high 2) = 0 \<and> processor (doms ex_high 3) = 0
   \<and> 0xe0000000 \<le> avt (BVT_INFO ex_high 3)
   \<and> 0xe0000000 \<le> evt (BVT_INFO ex_high 2) \<and> 0xe0000000 \<le> evt (BVT_INFO ex_high 3)
   \<and> unat (avt (BVT_INFO (do_schedule_overrun 0 ex_high) 3))
       = unat (avt (BVT_INFO ex_high 3)) - 0xe0000000
   \<and> unat (CPU_SVT (do_schedule_overrun 0 ex_high) 0) = unat (CPU_SVT ex_high 0) - 0xe0000000
   \<and> (evt (BVT_INFO (do_schedule_overrun 0 ex_high) 2)
         \<le> evt (BVT_INFO (do_schedule_overrun 0 ex_high) 3))
       = (evt (BVT_INFO ex_high 2) \<le> evt (BVT_INFO ex_high 3))
   \<and> evt (BVT_INFO ex_high 2) \<le> evt (BVT_INFO ex_high 3)
   \<and> avt (BVT_INFO (do_schedule_overrun 0 ex_high) 3) = 0x10000001
   \<and> CPU_SVT (do_schedule_overrun 0 ex_high) 0 = 0x10000000"
proof -
  have h: "0xf0000000 \<le> CPU_SVT ex_high 0" "distinct (task_list ex_high)"
    by code_simp+
  have m: "2 \<in> set (task_list ex_high)" "3 \<in> set (task_list ex_high)"
    "processor (doms ex_high 2) = 0" "processor (doms ex_high 3) = 0"
    "0xe0000000 \<le> avt (BVT_INFO ex_high 3)"
    "0xe0000000 \<le> evt (BVT_INFO ex_high 2)" "0xe0000000 \<le> evt (BVT_INFO ex_high 3)"
    by code_simp+
  have v: "avt (BVT_INFO (do_schedule_overrun 0 ex_high) 3) = 0x10000001"
    "CPU_SVT (do_schedule_overrun 0 ex_high) 0 = 0x10000000"
    "evt (BVT_INFO ex_high 2) \<le> evt (BVT_INFO ex_high 3)"
    by code_simp+
  from overrun_rebase [OF h] m
  have "unat (avt (BVT_INFO (do_schedule_overrun 0 ex_high) 3))
          = unat (avt (BVT_INFO ex_high 3)) - 0xe0000000
        \<and> unat (CPU_SVT (do_schedule_overrun 0 ex_high) 0) = unat (CPU_SVT ex_high 0) - 0xe0000000
        \<and> (evt (BVT_INFO (do_schedule_overrun 0 ex_high) 2)
              \<le> evt (BVT_INFO (do_schedule_overrun 0 ex_high) 3))
            = (evt (BVT_INFO ex_high 2) \<le> evt (BVT_INFO ex_high 3))"
    by blast
  with h m v show ?thesis by simp
qed

text \<open>
  Claim C2 is what the code relies on: after the rebase it asserts
  \<open>next_prime_inf->evt >= next_inf->evt\<close> for the two records the scan selected
  before it. The code can break it. In \<open>ex_over\<close> domain 2 warps by \<open>0x20000000\<close>, no
  more than its \<open>avt\<close> \<open>0xf0000000\<close>, so its \<open>evt\<close> is \<open>0xd0000000\<close>, below
  domain 3 at \<open>0xf0000001\<close>. The unguarded subtraction wraps it to \<open>0xf0000000\<close>, an
  increase, above domain 3 at \<open>0x10000001\<close>: the order of the two is reversed. A whole
  reschedule in that state selects domain 2 with domain 3 as runner-up, rebases, and
  stops at that assertion.
\<close>

theorem overrun_rebase_reverses_order:
  "0xf0000000 \<le> CPU_SVT ex_over 0
   \<and> processor (doms ex_over 2) = 0 \<and> processor (doms ex_over 3) = 0
   \<and> 2 \<in> set (task_list ex_over) \<and> 3 \<in> set (task_list ex_over)
   \<and> warp_value (BVT_INFO ex_over 2) \<le> avt (BVT_INFO ex_over 2)
   \<and> evt (BVT_INFO ex_over 2) = calc_evt (doms ex_over 2) (avt (BVT_INFO ex_over 2))
   \<and> next_inf (do_schedule_scan (do_schedule_fold_back 2 0 ex_over) 0) = 2
   \<and> next_prime_inf (do_schedule_scan (do_schedule_fold_back 2 0 ex_over) 0) = Some 3
   \<and> evt (BVT_INFO ex_over 2) = 0xd0000000
   \<and> evt (BVT_INFO ex_over 3) = 0xf0000001
   \<and> evt (BVT_INFO ex_over 2) < evt (BVT_INFO ex_over 3)
   \<and> evt (BVT_INFO (do_schedule_overrun 0 ex_over) 2) = 0xf0000000
   \<and> evt (BVT_INFO (do_schedule_overrun 0 ex_over) 3) = 0x10000001
   \<and> evt (BVT_INFO (do_schedule_overrun 0 ex_over) 3)
       < evt (BVT_INFO (do_schedule_overrun 0 ex_over) 2)
   \<and> isl (bvt_do_schedule 2 0 ex_over)
   \<and> projl (bvt_do_schedule 2 0 ex_over) = Assert_evt_order"
  by code_simp

subsection \<open>Folding back and waking\<close>

lemma fold_back_info:
  assumes "\<not> is_idle_task (doms st prev)"
  shows "BVT_INFO (do_schedule_fold_back prev now st) prev
           = (BVT_INFO st prev)
               \<lparr>avt := calc_avt (doms st prev) now,
                evt := calc_evt (doms st prev) (calc_avt (doms st prev) now),
                warp_timer := rem_ac_timer (warp_timer (BVT_INFO st prev))\<rparr>"
  using assms
  by (simp add: do_schedule_fold_back_def Let_def acc_defs calc_evt_def)

lemma fold_back_queue:
  assumes "\<not> is_idle_task (doms st prev)"
  shows "RUNQUEUE (do_schedule_fold_back prev now st) (processor (doms st prev))
           = (if domain_runnable (doms st prev)
              then remove1 prev (RUNQUEUE st (processor (doms st prev))) @ [prev]
              else remove1 prev (RUNQUEUE st (processor (doms st prev))))"
  using assms
  by (simp add: do_schedule_fold_back_def Let_def acc_defs)

lemma bvt_wake_result:
  assumes "\<not> task_on_runqueue d st"
    and "mcu_advance (BVT_INFO st (curr (schedule_data st (processor (doms st d))))) \<noteq> 0"
  shows "\<exists>st'. bvt_wake d now st = Inr st'
     \<and> avt (BVT_INFO st' d)
         = (if avt (BVT_INFO st d) < CPU_SVT st (processor (doms st d)) \<or> df_migrated (doms st d)
            then CPU_SVT st (processor (doms st d)) else avt (BVT_INFO st d))
     \<and> warp (BVT_INFO st' d) = warp (BVT_INFO st d)
     \<and> warp_value (BVT_INFO st' d) = warp_value (BVT_INFO st d)
     \<and> evt (BVT_INFO st' d)
         = (if warp (BVT_INFO st d) \<noteq> 0 then avt (BVT_INFO st' d) - warp_value (BVT_INFO st d)
            else avt (BVT_INFO st' d))
     \<and> RUNQUEUE st' (processor (doms st d)) = d # RUNQUEUE st (processor (doms st d))
     \<and> (let cpu = processor (doms st d);
             c = curr (schedule_data st cpu);
             curr_evt = calc_evt (doms st' c) (calc_avt (doms st' c) now);
             r_time = lastschd (doms st c)
                      + ucast ((evt (BVT_INFO st' d) - curr_evt) div mcu_advance (BVT_INFO st c))
                      + scast (ctx_allow st)
         in if is_idle_task (doms st c) \<or> evt (BVT_INFO st' d) \<le> curr_evt
            then softirq_pending st' = (softirq_pending st)(cpu := True)
                 \<and> schedule_data st' = schedule_data st
            else softirq_pending st' = softirq_pending st
                 \<and> s_timer (schedule_data st' cpu)
                     = (if r_time <s expires (s_timer (schedule_data st cpu))
                        then \<lparr>expires = r_time, active = True\<rparr>
                        else s_timer (schedule_data st cpu)))"
proof -
  define cpu where "cpu = processor (doms st d)"
  define a' where "a' = (if avt (BVT_INFO st d) < CPU_SVT st cpu \<or> df_migrated (doms st d)
                          then CPU_SVT st cpu else avt (BVT_INFO st d))"
  define e' where "e' = (if warp (BVT_INFO st d) \<noteq> 0 then a' - warp_value (BVT_INFO st d) else a')"
  define st3 where "st3 = st\<lparr>doms := (doms st)(d := (doms st d)
                                \<lparr>sched_priv := (sched_priv (doms st d))\<lparr>avt := a', evt := e'\<rparr>\<rparr>),
                             cpu_info := (cpu_info st)(cpu := (cpu_info st cpu)
                                \<lparr>runqueue := d # runqueue (cpu_info st cpu)\<rparr>)\<rparr>"
  define c where "c = curr (schedule_data st cpu)"
  define curr_evt where "curr_evt = calc_evt (doms st3 c) (calc_avt (doms st3 c) now)"
  define r_time where "r_time = lastschd (doms st c)
                      + ucast ((e' - curr_evt) div mcu_advance (BVT_INFO st c))
                      + scast (ctx_allow st)"
  have s3: "upd_info d (\<lambda>inf. inf\<lparr>evt := calc_evt (doms
              (if avt (BVT_INFO (add_to_runqueue_head d st) d) < CPU_SVT (add_to_runqueue_head d st) cpu
                  \<or> df_migrated (doms (add_to_runqueue_head d st) d)
               then upd_info d (\<lambda>inf. inf\<lparr>avt := CPU_SVT (add_to_runqueue_head d st) cpu\<rparr>)
                      (add_to_runqueue_head d st)
               else add_to_runqueue_head d st) d) (avt inf)\<rparr>)
              (if avt (BVT_INFO (add_to_runqueue_head d st) d) < CPU_SVT (add_to_runqueue_head d st) cpu
                  \<or> df_migrated (doms (add_to_runqueue_head d st) d)
               then upd_info d (\<lambda>inf. inf\<lparr>avt := CPU_SVT (add_to_runqueue_head d st) cpu\<rparr>)
                      (add_to_runqueue_head d st)
               else add_to_runqueue_head d st) = st3"
    by (simp add: st3_def a'_def e'_def cpu_def acc_defs calc_evt_def Let_def)
  have f3: "doms st3 d = (doms st d)\<lparr>sched_priv := (sched_priv (doms st d))\<lparr>avt := a', evt := e'\<rparr>\<rparr>"
    "schedule_data st3 = schedule_data st" "softirq_pending st3 = softirq_pending st"
    "ctx_allow st3 = ctx_allow st" "RUNQUEUE st3 cpu = d # RUNQUEUE st cpu"
    "lastschd (doms st3 c) = lastschd (doms st c)"
    "is_idle_task (doms st3 c) = is_idle_task (doms st c)"
    "mcu_advance (BVT_INFO st3 c) = mcu_advance (BVT_INFO st c)"
    by (simp_all add: st3_def acc_defs)
  have i3: "avt (BVT_INFO st3 d) = a'" "evt (BVT_INFO st3 d) = e'"
    by (simp_all add: BVT_INFO_def f3)
  have w: "bvt_wake d now st =
      (if is_idle_task (doms st c) \<or> e' \<le> curr_evt then Inr (cpu_raise_softirq cpu st3)
       else if r_time <s expires (s_timer (schedule_data st cpu))
       then Inr (st3\<lparr>schedule_data := (schedule_data st)
                   (cpu := (schedule_data st cpu)
                      \<lparr>s_timer := mod_ac_timer (s_timer (schedule_data st cpu)) r_time\<rparr>)\<rparr>)
       else Inr st3)"
    using assms
    unfolding bvt_wake_def Let_def cpu_def [symmetric] s3
    unfolding f3 i3 c_def [symmetric] curr_evt_def [symmetric] r_time_def [symmetric]
    by simp
  have g3: "runqueue (cpu_info st3 cpu) = d # runqueue (cpu_info st cpu)"
    "avt (sched_priv (doms st3 d)) = a'" "evt (sched_priv (doms st3 d)) = e'"
    "warp (sched_priv (doms st3 d)) = warp (sched_priv (doms st d))"
    "warp_value (sched_priv (doms st3 d)) = warp_value (sched_priv (doms st d))"
    by (simp_all add: st3_def)
  show ?thesis
    unfolding Let_def cpu_def [symmetric] c_def [symmetric] w a'_def [symmetric]
    by (simp add: f3 g3 BVT_INFO_def cpu_raise_softirq_def RUNQUEUE_def mod_ac_timer_def
        add_ac_timer_def rem_ac_timer_def e'_def curr_evt_def r_time_def)
qed

lemma bvt_wake_divide:
  assumes "\<not> task_on_runqueue d st"
    and "mcu_advance (BVT_INFO st (curr (schedule_data st (processor (doms st d))))) = 0"
  shows "bvt_wake d now st = Inl Divide_error"
proof -
  have "\<And>s f. mcu_advance (BVT_INFO (upd_info d (\<lambda>inf. inf\<lparr>evt := f inf\<rparr>) s) c)
                = mcu_advance (BVT_INFO s c)" for c
    by (simp add: BVT_INFO_def upd_info_def)
  moreover have "\<And>s v. mcu_advance (BVT_INFO (upd_info d (\<lambda>inf. inf\<lparr>avt := v\<rparr>) s) c)
                = mcu_advance (BVT_INFO s c)" for c
    by (simp add: BVT_INFO_def upd_info_def)
  moreover have "\<And>s f. schedule_data (upd_info d f s) = schedule_data s"
    by (simp add: upd_info_def)
  moreover have "schedule_data (add_to_runqueue_head d st) = schedule_data st"
    "\<And>c. BVT_INFO (add_to_runqueue_head d st) c = BVT_INFO st c"
    by (simp_all add: add_to_runqueue_head_def set_runqueue_def Let_def BVT_INFO_def)
  ultimately show ?thesis
    using assms unfolding bvt_wake_def Let_def by simp
qed

lemma bvt_wake_evt:
  assumes "bvt_wake d now st = Inr st'" and "\<not> task_on_runqueue d st"
  shows "evt (BVT_INFO st' d)
           = (if warp (BVT_INFO st' d) \<noteq> 0 then avt (BVT_INFO st' d) - warp_value (BVT_INFO st' d)
              else avt (BVT_INFO st' d))"
proof -
  have m: "mcu_advance (BVT_INFO st (curr (schedule_data st (processor (doms st d))))) \<noteq> 0"
    using bvt_wake_divide [OF assms(2), of now] assms(1) by auto
  from bvt_wake_result [OF assms(2) m, of now] assms(1) show ?thesis by auto
qed

text \<open>
  Claim C3. Waking a domain that is not on the run queue, when the current domain's
  \<open>mcu_advance\<close> is not zero, succeeds. The domain's \<open>avt\<close> becomes the CPU's \<open>svt\<close>
  exactly when it was below \<open>svt\<close> or the domain was migrated, and is unchanged
  otherwise; its \<open>evt\<close> is recomputed from that \<open>avt\<close> and its unchanged warp state;
  it is put at the head of the run queue. With \<open>curr_evt\<close> the recomputed \<open>evt\<close> of the
  current domain: if the current domain is idle or the woken domain's \<open>evt\<close> is at most
  \<open>curr_evt\<close>, a reschedule is raised on the CPU and the timer is left alone; otherwise
  no reschedule is raised, and the reschedule timer is moved to the catch-up time
  \<open>r_time\<close> if its deadline lies beyond \<open>r_time\<close>.
\<close>

theorem bvt_wake_spec:
  assumes "\<not> task_on_runqueue d st"
    and "mcu_advance (BVT_INFO st (curr (schedule_data st (processor (doms st d))))) \<noteq> 0"
  shows "\<exists>st'. bvt_wake d now st = Inr st'
     \<and> avt (BVT_INFO st' d)
         = (if avt (BVT_INFO st d) < CPU_SVT st (processor (doms st d)) \<or> df_migrated (doms st d)
            then CPU_SVT st (processor (doms st d)) else avt (BVT_INFO st d))
     \<and> warp (BVT_INFO st' d) = warp (BVT_INFO st d)
     \<and> warp_value (BVT_INFO st' d) = warp_value (BVT_INFO st d)
     \<and> evt (BVT_INFO st' d)
         = (if warp (BVT_INFO st d) \<noteq> 0 then avt (BVT_INFO st' d) - warp_value (BVT_INFO st d)
            else avt (BVT_INFO st' d))
     \<and> RUNQUEUE st' (processor (doms st d)) = d # RUNQUEUE st (processor (doms st d))
     \<and> (let cpu = processor (doms st d);
             c = curr (schedule_data st cpu);
             curr_evt = calc_evt (doms st' c) (calc_avt (doms st' c) now);
             r_time = lastschd (doms st c)
                      + ucast ((evt (BVT_INFO st' d) - curr_evt) div mcu_advance (BVT_INFO st c))
                      + scast (ctx_allow st)
         in if is_idle_task (doms st c) \<or> evt (BVT_INFO st' d) \<le> curr_evt
            then softirq_pending st' = (softirq_pending st)(cpu := True)
                 \<and> schedule_data st' = schedule_data st
            else softirq_pending st' = softirq_pending st
                 \<and> s_timer (schedule_data st' cpu)
                     = (if r_time <s expires (s_timer (schedule_data st cpu))
                        then \<lparr>expires = r_time, active = True\<rparr>
                        else s_timer (schedule_data st cpu)))"
  using assms by (rule bvt_wake_result)

text \<open>
  In \<open>ex_blocked\<close> domain 2 sleeps with \<open>avt = 10\<close> below \<open>svt = 50\<close> while domain 3
  runs. Waking it after 100 microseconds re-bases it to 50 and puts it at the head; the
  current domain's recomputed \<open>evt\<close> is 51, so a reschedule is raised.
\<close>

theorem bvt_wake_spec_witness:
  "\<not> task_on_runqueue 2 ex_blocked
   \<and> mcu_advance (BVT_INFO ex_blocked (curr (schedule_data ex_blocked
        (processor (doms ex_blocked 2))))) \<noteq> 0
   \<and> bvt_wake 2 100000 ex_blocked = Inr ex_blocked_result
   \<and> avt (BVT_INFO ex_blocked 2) < CPU_SVT ex_blocked (processor (doms ex_blocked 2))
   \<and> avt (BVT_INFO ex_blocked_result 2) = CPU_SVT ex_blocked (processor (doms ex_blocked 2))
   \<and> RUNQUEUE ex_blocked_result (processor (doms ex_blocked 2))
       = 2 # RUNQUEUE ex_blocked (processor (doms ex_blocked 2))
   \<and> RUNQUEUE ex_blocked_result 0 = [2, 3, 0]
   \<and> avt (BVT_INFO ex_blocked_result 2) = 50
   \<and> evt (BVT_INFO ex_blocked_result 2) = 50
   \<and> softirq_pending ex_blocked_result 0"
proof -
  have h: "\<not> task_on_runqueue 2 ex_blocked"
    "mcu_advance (BVT_INFO ex_blocked (curr (schedule_data ex_blocked
        (processor (doms ex_blocked 2))))) \<noteq> 0"
    by code_simp+
  have lt: "avt (BVT_INFO ex_blocked 2) < CPU_SVT ex_blocked (processor (doms ex_blocked 2))"
    by code_simp
  from bvt_wake_spec [OF h, of 100000] obtain st' where
    s: "bvt_wake 2 100000 ex_blocked = Inr st'"
    and a: "avt (BVT_INFO st' 2)
         = (if avt (BVT_INFO ex_blocked 2) < CPU_SVT ex_blocked (processor (doms ex_blocked 2))
               \<or> df_migrated (doms ex_blocked 2)
            then CPU_SVT ex_blocked (processor (doms ex_blocked 2)) else avt (BVT_INFO ex_blocked 2))"
    and q: "RUNQUEUE st' (processor (doms ex_blocked 2))
              = 2 # RUNQUEUE ex_blocked (processor (doms ex_blocked 2))"
    by blast
  have r: "ex_blocked_result = st'" by (simp add: ex_blocked_result_def s)
  have v: "RUNQUEUE ex_blocked_result 0 = [2, 3, 0]" "avt (BVT_INFO ex_blocked_result 2) = 50"
    "evt (BVT_INFO ex_blocked_result 2) = 50" "softirq_pending ex_blocked_result 0"
    by code_simp+
  show ?thesis
    using h lt s a q v unfolding r by simp
qed

subsection \<open>Effective virtual time\<close>

text \<open>
  Claim C6, as amended. \<open>calc_evt\<close> returns \<open>avt - warp_value\<close> modulo \<open>2 ^ 32\<close> when
  the warp flag is set and \<open>avt\<close> otherwise, and both places that recompute a domain's
  \<open>evt\<close>, the fold-back of \<open>bvt_do_schedule\<close> and \<open>bvt_wake\<close>, store this value for
  the \<open>avt\<close> they store. The result is at most \<open>avt\<close> exactly when the domain is not
  warping or \<open>warp_value\<close>, read as unsigned, is at most \<open>avt\<close>; it equals \<open>avt\<close>
  exactly when the domain is not warping or \<open>warp_value\<close> is zero.
\<close>

theorem calc_evt_spec:
  "calc_evt d a = (if warp (sched_priv d) \<noteq> 0 then a - warp_value (sched_priv d) else a)
   \<and> (calc_evt d a \<le> a \<longleftrightarrow> warp (sched_priv d) = 0 \<or> warp_value (sched_priv d) \<le> a)
   \<and> (calc_evt d a = a \<longleftrightarrow> warp (sched_priv d) = 0 \<or> warp_value (sched_priv d) = 0)
   \<and> (\<not> is_idle_task (doms st prev) \<longrightarrow>
        evt (BVT_INFO (do_schedule_fold_back prev now st) prev)
          = calc_evt (doms (do_schedule_fold_back prev now st) prev)
              (avt (BVT_INFO (do_schedule_fold_back prev now st) prev)))
   \<and> (\<not> task_on_runqueue p st \<and> bvt_wake p now st = Inr st' \<longrightarrow>
        evt (BVT_INFO st' p) = calc_evt (doms st' p) (avt (BVT_INFO st' p)))"
proof -
  have "evt (BVT_INFO (do_schedule_fold_back prev now st) prev)
          = calc_evt (doms (do_schedule_fold_back prev now st) prev)
              (avt (BVT_INFO (do_schedule_fold_back prev now st) prev))"
    if "\<not> is_idle_task (doms st prev)"
    using fold_back_info [OF that, of now, unfolded BVT_INFO_def]
    by (simp add: calc_evt_def Let_def BVT_INFO_def)
  moreover have "evt (BVT_INFO st' p) = calc_evt (doms st' p) (avt (BVT_INFO st' p))"
    if "\<not> task_on_runqueue p st" "bvt_wake p now st = Inr st'"
    using bvt_wake_evt [OF that(2) that(1)] by (simp add: calc_evt_def Let_def BVT_INFO_def)
  ultimately show ?thesis
    by (simp add: calc_evt_def Let_def word_sub_le_iff)
qed

text \<open>
  The scenario of the specification: with \<open>warp_value = 100\<close> and \<open>avt = 1000\<close> the
  \<open>evt\<close> is 900 while warping and 1000 once the warp flag is cleared. Domain 2 of
  \<open>ex_two\<close> is folded back at time 0, domain 2 of \<open>ex_blocked\<close> is woken.
\<close>

theorem calc_evt_spec_witness:
  "warp (sched_priv (ex_dom False (ex_info 10 1000 900 1 100))) \<noteq> 0
   \<and> warp_value (sched_priv (ex_dom False (ex_info 10 1000 900 1 100))) \<le> 1000
   \<and> calc_evt (ex_dom False (ex_info 10 1000 900 1 100)) 1000 = 900
   \<and> calc_evt (ex_dom False (ex_info 10 1000 900 1 100)) 1000 \<le> 1000
   \<and> calc_evt (ex_dom False (ex_info 10 1000 900 0 100)) 1000 = 1000
   \<and> \<not> is_idle_task (doms ex_two 2)
   \<and> evt (BVT_INFO (do_schedule_fold_back 2 0 ex_two) 2)
       = calc_evt (doms (do_schedule_fold_back 2 0 ex_two) 2)
           (avt (BVT_INFO (do_schedule_fold_back 2 0 ex_two) 2))
   \<and> evt (BVT_INFO (do_schedule_fold_back 2 0 ex_two) 2) = 900
   \<and> \<not> task_on_runqueue 2 ex_blocked
   \<and> bvt_wake 2 100000 ex_blocked = Inr ex_blocked_result
   \<and> evt (BVT_INFO ex_blocked_result 2)
       = calc_evt (doms ex_blocked_result 2) (avt (BVT_INFO ex_blocked_result 2))"
proof -
  have h: "warp (sched_priv (ex_dom False (ex_info 10 1000 900 1 100))) \<noteq> 0"
    "warp_value (sched_priv (ex_dom False (ex_info 10 1000 900 1 100))) \<le> 1000"
    "\<not> is_idle_task (doms ex_two 2)" "\<not> task_on_runqueue 2 ex_blocked"
    by code_simp+
  have "\<not> isl (bvt_wake 2 100000 ex_blocked)" by code_simp
  then have w: "bvt_wake 2 100000 ex_blocked = Inr ex_blocked_result"
    by (simp add: ex_blocked_result_def Inr_projr [symmetric])
  have v: "calc_evt (ex_dom False (ex_info 10 1000 900 1 100)) 1000 = 900"
    "calc_evt (ex_dom False (ex_info 10 1000 900 0 100)) 1000 = 1000"
    "evt (BVT_INFO (do_schedule_fold_back 2 0 ex_two) 2) = 900"
    by code_simp+
  from calc_evt_spec [of "ex_dom False (ex_info 10 1000 900 1 100)" 1000 ex_two 2 0 2 ex_blocked]
    h(1,2)
  have c1: "calc_evt (ex_dom False (ex_info 10 1000 900 1 100)) 1000 \<le> 1000"
    by blast
  from calc_evt_spec [of "ex_dom False (ex_info 10 1000 900 1 100)" 1000 ex_two 2 0 2 ex_blocked]
    h(3)
  have c2: "evt (BVT_INFO (do_schedule_fold_back 2 0 ex_two) 2)
       = calc_evt (doms (do_schedule_fold_back 2 0 ex_two) 2)
           (avt (BVT_INFO (do_schedule_fold_back 2 0 ex_two) 2))"
    by blast
  from calc_evt_spec [of "ex_dom False (ex_info 10 1000 900 1 100)" 1000 ex_blocked 2 100000 2
      ex_blocked_result] h(4) w
  have c3: "evt (BVT_INFO ex_blocked_result 2)
       = calc_evt (doms ex_blocked_result 2) (avt (BVT_INFO ex_blocked_result 2))"
    by blast
  show ?thesis
    using h w v c1 c2 c3 by simp
qed

text \<open>
  Claim C6 as stated fails: a warping domain may have \<open>evt\<close> above \<open>avt\<close>. In
  \<open>ex_tie\<close> domain 2 warps by 1 at \<open>avt = 0\<close>. After a reschedule at time 0 with
  domain 2 as the previous domain it is runnable and on the run queue with \<open>avt = 0\<close> and
  \<open>evt = 0xFFFFFFFF\<close>.
\<close>

theorem evt_above_avt_counterexample:
  "\<not> isl (bvt_do_schedule 2 0 ex_tie)
   \<and> domain_runnable (doms (fst (projr (bvt_do_schedule 2 0 ex_tie))) 2)
   \<and> task_on_runqueue 2 (fst (projr (bvt_do_schedule 2 0 ex_tie)))
   \<and> warp (BVT_INFO (fst (projr (bvt_do_schedule 2 0 ex_tie))) 2) \<noteq> 0
   \<and> avt (BVT_INFO (fst (projr (bvt_do_schedule 2 0 ex_tie))) 2) = 0
   \<and> evt (BVT_INFO (fst (projr (bvt_do_schedule 2 0 ex_tie))) 2) = 0xFFFFFFFF
   \<and> \<not> evt (BVT_INFO (fst (projr (bvt_do_schedule 2 0 ex_tie))) 2)
         \<le> avt (BVT_INFO (fst (projr (bvt_do_schedule 2 0 ex_tie))) 2)"
  by code_simp

text \<open>
  Claim C5 is what the assertion in the code says, and the code can break it: the quotient
  is a \<open>u32\<close>, the sum with \<open>ctx_allow\<close> is taken modulo \<open>2 ^ 32\<close> and stored in the
  \<open>s32\<close> \<open>r_time\<close>. In \<open>ex_slice\<close> the scan selects domain 2 with domain 3 as the
  runner-up, neither is idle, \<open>next_prime.evt \<ge> next.evt\<close> holds and \<open>mcu_advance\<close> is
  1; the sum is \<open>0x80000000 + 5000000 = 0x804C4B40\<close>, a negative \<open>s32\<close>, and the
  assertion \<open>r_time >= ctx_allow\<close> fails. \<open>ex_slice_run\<close> is the same reschedule in
  the state reached from start-up through \<open>bvt_adjdom\<close> and \<open>bvt_wake\<close>.
\<close>

theorem slice_assertion_fails:
  "next_inf (do_schedule_scan ex_slice 0) = 2
   \<and> next_prime_inf (do_schedule_scan ex_slice 0) = Some 3
   \<and> \<not> is_idle_task (doms ex_slice 2) \<and> \<not> is_idle_task (doms ex_slice 3)
   \<and> evt (BVT_INFO ex_slice 2) \<le> evt (BVT_INFO ex_slice 3)
   \<and> mcu_advance (BVT_INFO ex_slice 2) \<noteq> 0
   \<and> ctx_allow ex_slice = 5000000
   \<and> (evt (BVT_INFO ex_slice 3) - evt (BVT_INFO ex_slice 2)) div mcu_advance (BVT_INFO ex_slice 2)
        + ctx_allow ex_slice = 0x804C4B40
   \<and> sint ((evt (BVT_INFO ex_slice 3) - evt (BVT_INFO ex_slice 2))
              div mcu_advance (BVT_INFO ex_slice 2) + ctx_allow ex_slice) = - 2142483648
   \<and> \<not> ctx_allow ex_slice \<le>s (evt (BVT_INFO ex_slice 3) - evt (BVT_INFO ex_slice 2))
                                 div mcu_advance (BVT_INFO ex_slice 2) + ctx_allow ex_slice
   \<and> isl (bvt_do_schedule 0 0 ex_slice)
   \<and> projl (bvt_do_schedule 0 0 ex_slice) = Assert_slice_ge_ctx_allow
   \<and> isl ex_slice_run
   \<and> projl ex_slice_run = Assert_slice_ge_ctx_allow"
  by code_simp

subsection \<open>Timers\<close>

text \<open>
  Claim C7. The warp-expiry callback clears the warp flag and requests a reschedule on
  the domain's CPU; if \<open>warpu\<close> is zero it clears \<open>warpback\<close> and leaves the unwarp
  timer alone, otherwise it leaves \<open>warpback\<close> alone and arms the unwarp timer for
  \<open>now + warpu\<close>. The unwarp-expiry callback sets the warp flag and requests a
  reschedule when \<open>warpback\<close> is non-zero, and otherwise leaves the state as it is.
\<close>

theorem warp_timer_fns:
  "warp (BVT_INFO (warp_timer_fn p now st) p) = 0
   \<and> softirq_pending (warp_timer_fn p now st) (processor (doms st p))
   \<and> warpback (BVT_INFO (warp_timer_fn p now st) p)
       = (if warpu (BVT_INFO st p) = 0 then 0 else warpback (BVT_INFO st p))
   \<and> unwarp_timer (BVT_INFO (warp_timer_fn p now st) p)
       = (if warpu (BVT_INFO st p) = 0 then unwarp_timer (BVT_INFO st p)
          else \<lparr>expires = now + warpu (BVT_INFO st p), active = True\<rparr>)
   \<and> (warpback (BVT_INFO st p) \<noteq> 0 \<longrightarrow>
        warp (BVT_INFO (unwarp_timer_fn p st) p) = 1
        \<and> softirq_pending (unwarp_timer_fn p st) (processor (doms st p)))
   \<and> (warpback (BVT_INFO st p) = 0 \<longrightarrow> unwarp_timer_fn p st = st)"
  by (simp add: warp_timer_fn_def unwarp_timer_fn_def Let_def upd_info_def BVT_INFO_def
      cpu_raise_softirq_def add_ac_timer_def)

text \<open>
  In \<open>ex_two\<close> domain 2 has \<open>warpback\<close> set and \<open>warpu\<close> one second, domain 3 has
  \<open>warpback\<close> clear.
\<close>

theorem warp_timer_fns_witness:
  "warpback (BVT_INFO ex_two 2) \<noteq> 0
   \<and> warp (BVT_INFO (unwarp_timer_fn 2 ex_two) 2) = 1
   \<and> softirq_pending (unwarp_timer_fn 2 ex_two) (processor (doms ex_two 2))
   \<and> warpback (BVT_INFO ex_two 3) = 0
   \<and> unwarp_timer_fn 3 ex_two = ex_two
   \<and> warpu (BVT_INFO ex_two 2) = 1000000000
   \<and> warp (BVT_INFO (warp_timer_fn 2 100 ex_two) 2) = 0
   \<and> unwarp_timer (BVT_INFO (warp_timer_fn 2 100 ex_two) 2)
       = \<lparr>expires = 1000000100, active = True\<rparr>"
proof -
  have a: "warpback (BVT_INFO ex_two 2) \<noteq> 0" "warpback (BVT_INFO ex_two 3) = 0"
    "warpu (BVT_INFO ex_two 2) = 1000000000"
    by code_simp+
  show ?thesis
    using warp_timer_fns [of 2 100 ex_two] warp_timer_fns [of 3 100 ex_two] a
    by simp
qed

lemma bvt_do_schedule_unwarp_timer:
  assumes "bvt_do_schedule prev now st = Inr (st', ret)"
  shows "unwarp_timer (BVT_INFO st' p) = unwarp_timer (BVT_INFO st p)"
proof -
  from bvt_do_schedule_Inr [OF assms] show ?thesis
    by (auto simp add: done_frame overrun_frame set_svt_frame fold_back_frame)
qed

text \<open>
  Claim C8, as amended. When the previous domain is not the idle domain, folding it back
  cancels its warp-expiry timer and leaves its unwarp-expiry timer as it was, and the
  domain goes to the tail of the run queue if it is runnable and leaves the queue
  otherwise; the unwarp-expiry timer is still as it was when \<open>bvt_do_schedule\<close> returns.
  Cancelling a timer that is not armed changes nothing.
\<close>

theorem fold_back_timers:
  assumes "\<not> is_idle_task (doms st prev)"
  shows "\<not> active (warp_timer (BVT_INFO (do_schedule_fold_back prev now st) prev))
     \<and> unwarp_timer (BVT_INFO (do_schedule_fold_back prev now st) prev)
         = unwarp_timer (BVT_INFO st prev)
     \<and> RUNQUEUE (do_schedule_fold_back prev now st) (processor (doms st prev))
         = (if domain_runnable (doms st prev)
            then remove1 prev (RUNQUEUE st (processor (doms st prev))) @ [prev]
            else remove1 prev (RUNQUEUE st (processor (doms st prev))))
     \<and> (\<not> active (warp_timer (BVT_INFO st prev)) \<longrightarrow>
          warp_timer (BVT_INFO (do_schedule_fold_back prev now st) prev)
            = warp_timer (BVT_INFO st prev))
     \<and> (\<forall>t. \<not> active t \<longrightarrow> rem_ac_timer t = t)
     \<and> (\<forall>st' ret. bvt_do_schedule prev now st = Inr (st', ret) \<longrightarrow>
          unwarp_timer (BVT_INFO st' prev) = unwarp_timer (BVT_INFO st prev))"
  using fold_back_info [OF assms, of now] fold_back_queue [OF assms, of now]
    bvt_do_schedule_unwarp_timer [of prev now st]
  by (simp add: rem_ac_timer_def)

text \<open>
  In \<open>ex_armed\<close> both timers of the current domain 2 are pending; after the fold-back
  its warp timer is not, and the domain is at the tail of the queue. In \<open>ex_two\<close> the
  warp timer of domain 2 is not pending and the fold-back leaves it as it is.
\<close>

theorem fold_back_timers_witness:
  "\<not> is_idle_task (doms ex_armed 2)
   \<and> active (warp_timer (BVT_INFO ex_armed 2))
   \<and> \<not> active (warp_timer (BVT_INFO (do_schedule_fold_back 2 100 ex_armed) 2))
   \<and> unwarp_timer (BVT_INFO (do_schedule_fold_back 2 100 ex_armed) 2)
       = unwarp_timer (BVT_INFO ex_armed 2)
   \<and> RUNQUEUE ex_armed 0 = [2, 3, 0]
   \<and> RUNQUEUE (do_schedule_fold_back 2 100 ex_armed) 0 = [3, 0, 2]
   \<and> bvt_do_schedule 2 100 ex_armed = Inr (fst ex_armed_result, snd ex_armed_result)
   \<and> unwarp_timer (BVT_INFO (fst ex_armed_result) 2) = unwarp_timer (BVT_INFO ex_armed 2)
   \<and> \<not> is_idle_task (doms ex_two 2)
   \<and> \<not> active (warp_timer (BVT_INFO ex_two 2))
   \<and> warp_timer (BVT_INFO (do_schedule_fold_back 2 100 ex_two) 2)
       = warp_timer (BVT_INFO ex_two 2)
   \<and> \<not> active (ex_timer False)
   \<and> rem_ac_timer (ex_timer False) = ex_timer False"
proof -
  have h: "\<not> is_idle_task (doms ex_armed 2)" "\<not> is_idle_task (doms ex_two 2)"
    by code_simp+
  have v: "active (warp_timer (BVT_INFO ex_armed 2))" "RUNQUEUE ex_armed 0 = [2, 3, 0]"
    "RUNQUEUE (do_schedule_fold_back 2 100 ex_armed) 0 = [3, 0, 2]"
    "\<not> active (warp_timer (BVT_INFO ex_two 2))" "\<not> active (ex_timer False)"
    by code_simp+
  have "\<not> isl (bvt_do_schedule 2 100 ex_armed)" by code_simp
  then have ev: "bvt_do_schedule 2 100 ex_armed = Inr (fst ex_armed_result, snd ex_armed_result)"
    by (simp add: ex_armed_result_def Inr_projr [symmetric])
  from fold_back_timers [OF h(1), of 100] ev v(5)
  have a: "\<not> active (warp_timer (BVT_INFO (do_schedule_fold_back 2 100 ex_armed) 2))
        \<and> unwarp_timer (BVT_INFO (do_schedule_fold_back 2 100 ex_armed) 2)
            = unwarp_timer (BVT_INFO ex_armed 2)
        \<and> unwarp_timer (BVT_INFO (fst ex_armed_result) 2) = unwarp_timer (BVT_INFO ex_armed 2)
        \<and> rem_ac_timer (ex_timer False) = ex_timer False"
    by blast
  from fold_back_timers [OF h(2), of 100] v(4)
  have b: "warp_timer (BVT_INFO (do_schedule_fold_back 2 100 ex_two) 2)
             = warp_timer (BVT_INFO ex_two 2)"
    by blast
  from h v ev a b show ?thesis by simp
qed

text \<open>
  Claim C8 as stated fails for the unwarp-expiry timer: \<open>bvt_do_schedule\<close> removes only
  \<open>warp_timer\<close>. In \<open>ex_armed\<close> the unwarp timer of the previous domain is pending
  before the reschedule, after the fold-back, and when the function returns.
\<close>

theorem unwarp_timer_kept_counterexample:
  "\<not> is_idle_task (doms ex_armed 2)
   \<and> active (unwarp_timer (BVT_INFO ex_armed 2))
   \<and> active (unwarp_timer (BVT_INFO (do_schedule_fold_back 2 100 ex_armed) 2))
   \<and> \<not> isl (bvt_do_schedule 2 100 ex_armed)
   \<and> active (unwarp_timer (BVT_INFO (fst (projr (bvt_do_schedule 2 100 ex_armed))) 2))"
  by code_simp

subsection \<open>Setting the parameters of a domain\<close>

text \<open>
  Claim C9. A request with direction \<open>SCHED_INFO_PUT\<close> and \<open>mcu_adv = 0\<close> returns
  \<open>-EINVAL\<close>, which is not the success value 0, and leaves the whole state, and with it
  every field of the domain's scheduling record, and the command as they were.
\<close>

theorem bvt_adjdom_zero_rejected:
  "direction cmd = SCHED_INFO_PUT \<Longrightarrow> adj_mcu_adv (u_bvt cmd) = 0 \<Longrightarrow>
   bvt_adjdom p cmd st = (- EINVAL, st, cmd) \<and> - EINVAL \<noteq> 0"
  by (simp add: bvt_adjdom_def EINVAL_def)

theorem bvt_adjdom_zero_rejected_witness:
  "direction (ex_cmd SCHED_INFO_PUT 0 1 7) = SCHED_INFO_PUT
   \<and> adj_mcu_adv (u_bvt (ex_cmd SCHED_INFO_PUT 0 1 7)) = 0
   \<and> bvt_adjdom 2 (ex_cmd SCHED_INFO_PUT 0 1 7) ex_two
       = (- 22, ex_two, ex_cmd SCHED_INFO_PUT 0 1 7)"
  using bvt_adjdom_zero_rejected [of "ex_cmd SCHED_INFO_PUT 0 1 7" 2 ex_two]
  by (simp add: ex_cmd_def EINVAL_def)

text \<open>
  Claim C10. A request with direction \<open>SCHED_INFO_PUT\<close> and a non-zero \<open>mcu_adv\<close>
  returns 0, sets the warp flag to 1 whatever it was and whatever \<open>warpback\<close> is asked
  for, and writes the five requested parameters.
\<close>

theorem bvt_adjdom_put_sets_warp:
  "direction cmd = SCHED_INFO_PUT \<Longrightarrow> adj_mcu_adv (u_bvt cmd) \<noteq> 0 \<Longrightarrow>
   bvt_adjdom p cmd st = (rc, st', cmd') \<Longrightarrow>
   rc = 0
   \<and> warp (BVT_INFO st' p) = 1
   \<and> mcu_advance (BVT_INFO st' p) = adj_mcu_adv (u_bvt cmd)
   \<and> warpback (BVT_INFO st' p) = adj_warpback (u_bvt cmd)
   \<and> warp_value (BVT_INFO st' p) = adj_warpvalue (u_bvt cmd)
   \<and> warpl (BVT_INFO st' p) = adj_warpl (u_bvt cmd)
   \<and> warpu (BVT_INFO st' p) = adj_warpu (u_bvt cmd)"
  by (auto simp add: bvt_adjdom_def Let_def upd_info_def BVT_INFO_def)

text \<open>
  Domain 3 of \<open>ex_two\<close> does not warp; a request with \<open>warpback = 0\<close> sets its warp
  flag all the same.
\<close>

theorem bvt_adjdom_put_sets_warp_witness:
  "direction (ex_cmd SCHED_INFO_PUT 20 0 7) = SCHED_INFO_PUT
   \<and> adj_mcu_adv (u_bvt (ex_cmd SCHED_INFO_PUT 20 0 7)) \<noteq> 0
   \<and> warp (BVT_INFO ex_two 3) = 0
   \<and> fst (bvt_adjdom 3 (ex_cmd SCHED_INFO_PUT 20 0 7) ex_two) = 0
   \<and> warp (BVT_INFO (fst (snd (bvt_adjdom 3 (ex_cmd SCHED_INFO_PUT 20 0 7) ex_two))) 3) = 1
   \<and> warpback (BVT_INFO (fst (snd (bvt_adjdom 3 (ex_cmd SCHED_INFO_PUT 20 0 7) ex_two))) 3) = 0
   \<and> mcu_advance (BVT_INFO (fst (snd (bvt_adjdom 3 (ex_cmd SCHED_INFO_PUT 20 0 7) ex_two))) 3)
       = 20"
proof -
  have h: "direction (ex_cmd SCHED_INFO_PUT 20 0 7) = SCHED_INFO_PUT"
    "adj_mcu_adv (u_bvt (ex_cmd SCHED_INFO_PUT 20 0 7)) \<noteq> 0"
    by (simp_all add: ex_cmd_def)
  have v: "warp (BVT_INFO ex_two 3) = 0" by code_simp
  show ?thesis
    using bvt_adjdom_put_sets_warp [OF h, of 3 ex_two
      "fst (bvt_adjdom 3 (ex_cmd SCHED_INFO_PUT 20 0 7) ex_two)"
      "fst (snd (bvt_adjdom 3 (ex_cmd SCHED_INFO_PUT 20 0 7) ex_two))"
      "snd (snd (bvt_adjdom 3 (ex_cmd SCHED_INFO_PUT 20 0 7) ex_two))"] h v
    by (simp add: ex_cmd_def)
qed

end
